theory Spec2Isabelle
  imports Complex_Main "HOL-Library.Sublist"
begin

section \<open>Contextual decomposition scores (acd/scores/cd.py)\<close>

text \<open>
  The embedding follows \<^verbatim>\<open>src/acd/scores/cd.py\<close>. Tensors of the text path are numpy
  arrays of floats; they are modelled as lists of reals (a vector) and lists of rows
  (a matrix), so every equation below is an identity of real arithmetic, not of IEEE
  rounding. The helper module \<^verbatim>\<open>cd_propagate\<close> that \<^verbatim>\<open>cd.py\<close> imports is not among the
  sources: its functions are parameters of the embedded functions.
\<close>

subsection \<open>Arrays\<close>

type_synonym vec = "real list"
type_synonym mat = "real list list"

datatype error = IndexError | ValueError

text \<open>\<^verbatim>\<open>np.zeros(n)\<close>\<close>

definition np_zeros :: "nat \<Rightarrow> vec" where
  "np_zeros n = replicate n 0"

text \<open>Elementwise \<^verbatim>\<open>u + v\<close>, \<^verbatim>\<open>u - v\<close> and \<^verbatim>\<open>u * v\<close> of two vectors of one shape.\<close>

definition vadd :: "vec \<Rightarrow> vec \<Rightarrow> vec" where
  "vadd u v = map2 (+) u v"

definition vsub :: "vec \<Rightarrow> vec \<Rightarrow> vec" where
  "vsub u v = map2 (-) u v"

definition vmul :: "vec \<Rightarrow> vec \<Rightarrow> vec" where
  "vmul u v = map2 (*) u v"

text \<open>\<^verbatim>\<open>np.dot\<close> of two vectors, and of a matrix and a vector.\<close>

definition inner :: "vec \<Rightarrow> vec \<Rightarrow> real" where
  "inner u v = sum_list (map2 (*) u v)"

definition np_dot :: "mat \<Rightarrow> vec \<Rightarrow> vec" where
  "np_dot W v = map (\<lambda>row. inner row v) W"

text \<open>
  The functions above are total: on operands that do not fit they cut the longer one.
  numpy does not. \<^verbatim>\<open>np.dot\<close> of a matrix and a vector raises \<^verbatim>\<open>ValueError\<close> unless every
  row of the matrix has the length of the vector, and \<^verbatim>\<open>+\<close> and \<^verbatim>\<open>*\<close> raise it on two
  vectors of different length, unless one of them has length one, which numpy
  broadcasts. \<^verbatim>\<open>cd_text\<close> below therefore tests, with \<open>dot_fits\<close> and equations on
  lengths, that the operands of every operation fit, and stops with \<^verbatim>\<open>ValueError\<close> where
  they do not, so that its scores come from fitting operands only. An operand of
  length one against a longer one stops the embedding as well: for the state dict of a
  \<^verbatim>\<open>torch.nn.LSTM\<close> and helpers that return parts of the shape of their arguments, the
  first operation on operands that do not fit is an \<^verbatim>\<open>np.dot\<close>, which broadcasts nothing.
  A list of rows with no row carries no row length: it fits every vector.
\<close>

definition dot_fits :: "mat \<Rightarrow> vec \<Rightarrow> bool" where
  "dot_fits W v \<longleftrightarrow> (\<forall>row \<in> set W. length row = length v)"

text \<open>\<^verbatim>\<open>scipy.special.expit\<close>, imported as \<^verbatim>\<open>sigmoid\<close>; \<^verbatim>\<open>np.tanh\<close> is \<^const>\<open>tanh\<close>.\<close>

definition sigmoid :: "real \<Rightarrow> real" where
  "sigmoid x = 1 / (1 + exp (- x))"

text \<open>
  \<^verbatim>\<open>np.split(a, 4, 0)\<close>: four equal blocks along the first axis; numpy raises
  \<^verbatim>\<open>ValueError\<close> when the axis does not divide by four.
\<close>

definition np_split4 :: "'a list \<Rightarrow> error + ('a list \<times> 'a list \<times> 'a list \<times> 'a list)" where
  "np_split4 xs =
     (if length xs mod 4 \<noteq> 0 then Inl ValueError
      else let n = length xs div 4
           in Inr (take n xs, take n (drop n xs), take n (drop (2 * n) xs),
                   take n (drop (3 * n) xs)))"

subsection \<open>The text model and the helpers of cd\_propagate\<close>

text \<open>\<^verbatim>\<open>model.lstm.state_dict()\<close> of a one-layer \<^verbatim>\<open>torch.nn.LSTM\<close>.\<close>

record lstm_state_dict =
  weight_ih_l0 :: mat
  weight_hh_l0 :: mat
  bias_ih_l0 :: vec
  bias_hh_l0 :: vec

text \<open>
  The attributes of \<^verbatim>\<open>model\<close> that \<^verbatim>\<open>cd_text\<close> reads. \<^verbatim>\<open>embed\<close> is the embedding
  lookup, one vector per token; \<^verbatim>\<open>hidden_to_label\<close> is the linear readout.
\<close>

record text_model =
  lstm :: lstm_state_dict
  hidden_dim :: nat
  embed :: "nat \<Rightarrow> vec"
  hidden_to_label_weight :: mat
  hidden_to_label_bias :: vec

text \<open>
  \<^verbatim>\<open>propagate_three\<close> and \<^verbatim>\<open>propagate_tanh_two\<close> come from \<^verbatim>\<open>cd_propagate\<close>, whose
  source is absent: \<^verbatim>\<open>cd_text\<close> takes them as parameters.
\<close>

record propagators =
  propagate_three :: "vec \<Rightarrow> vec \<Rightarrow> vec \<Rightarrow> (real \<Rightarrow> real) \<Rightarrow> vec \<times> vec \<times> vec"
  propagate_tanh_two :: "vec \<Rightarrow> vec \<Rightarrow> vec \<times> vec"

text \<open>
  The twelve blocks that lines 83 to 85 split the state dict into. Line 85 adds the two
  bias vectors before it splits the sum.
\<close>

record lstm_gates =
  W_ii :: mat
  W_if :: mat
  W_ig :: mat
  W_io :: mat
  W_hi :: mat
  W_hf :: mat
  W_hg :: mat
  W_ho :: mat
  b_i :: vec
  b_f :: vec
  b_g :: vec
  b_o :: vec

definition split_gates :: "lstm_state_dict \<Rightarrow> error + lstm_gates" where
  "split_gates w =
     (case np_split4 (weight_ih_l0 w) of
        Inl e \<Rightarrow> Inl e
      | Inr (ii, i_f, ig, io) \<Rightarrow>
     (case np_split4 (weight_hh_l0 w) of
        Inl e \<Rightarrow> Inl e
      | Inr (hi, hf, hg, ho) \<Rightarrow>
     (if length (bias_ih_l0 w) \<noteq> length (bias_hh_l0 w) then Inl ValueError
      else
     (case np_split4 (vadd (bias_ih_l0 w) (bias_hh_l0 w)) of
        Inl e \<Rightarrow> Inl e
      | Inr (bi, bf, bg, bo) \<Rightarrow>
          Inr \<lparr>W_ii = ii, W_if = i_f, W_ig = ig, W_io = io,
               W_hi = hi, W_hf = hf, W_hg = hg, W_ho = ho,
               b_i = bi, b_f = bf, b_g = bg, b_o = bo\<rparr>))))"

subsection \<open>One timestep of cd\_text\<close>

text \<open>The test \<^verbatim>\<open>i >= start and i <= stop\<close> of lines 109 and 126.\<close>

definition in_range :: "int \<Rightarrow> int \<Rightarrow> nat \<Rightarrow> bool" where
  "in_range start stop i \<longleftrightarrow> int i \<ge> start \<and> int i \<le> stop"

text \<open>Lines 100 to 118: the eight gate pre-activations of timestep \<open>i\<close>.\<close>

record preacts =
  rel_i :: vec
  rel_g :: vec
  rel_f :: vec
  rel_o :: vec
  irrel_i :: vec
  irrel_g :: vec
  irrel_f :: vec
  irrel_o :: vec

definition gate_preacts ::
  "lstm_gates \<Rightarrow> int \<Rightarrow> int \<Rightarrow> nat \<Rightarrow> vec \<Rightarrow> vec \<Rightarrow> vec \<Rightarrow> preacts" where
  "gate_preacts G start stop i x prev_rel_h prev_irrel_h =
     (let p = \<lparr>rel_i = np_dot (W_hi G) prev_rel_h,
               rel_g = np_dot (W_hg G) prev_rel_h,
               rel_f = np_dot (W_hf G) prev_rel_h,
               rel_o = np_dot (W_ho G) prev_rel_h,
               irrel_i = np_dot (W_hi G) prev_irrel_h,
               irrel_g = np_dot (W_hg G) prev_irrel_h,
               irrel_f = np_dot (W_hf G) prev_irrel_h,
               irrel_o = np_dot (W_ho G) prev_irrel_h\<rparr>
      in if in_range start stop i
         then p\<lparr>rel_i := vadd (rel_i p) (np_dot (W_ii G) x),
                rel_g := vadd (rel_g p) (np_dot (W_ig G) x),
                rel_f := vadd (rel_f p) (np_dot (W_if G) x),
                rel_o := vadd (rel_o p) (np_dot (W_io G) x)\<rparr>
         else p\<lparr>irrel_i := vadd (irrel_i p) (np_dot (W_ii G) x),
                irrel_g := vadd (irrel_g p) (np_dot (W_ig G) x),
                irrel_f := vadd (irrel_f p) (np_dot (W_if G) x),
                irrel_o := vadd (irrel_o p) (np_dot (W_io G) x)\<rparr>)"

text \<open>
  Lines 123 to 129: the new cell-state rows from the input-gate triple and the
  candidate-gate triple, before the forget gate.
\<close>

definition cell_update ::
  "bool \<Rightarrow> vec \<times> vec \<times> vec \<Rightarrow> vec \<times> vec \<times> vec \<Rightarrow> vec \<times> vec" where
  "cell_update inr ci cg =
     (case ci of (rel_contrib_i, irrel_contrib_i, bias_contrib_i) \<Rightarrow>
      case cg of (rel_contrib_g, irrel_contrib_g, bias_contrib_g) \<Rightarrow>
        let r = vadd (vmul rel_contrib_i (vadd rel_contrib_g bias_contrib_g))
                     (vmul bias_contrib_i rel_contrib_g);
            ir = vadd (vmul irrel_contrib_i
                         (vadd (vadd rel_contrib_g irrel_contrib_g) bias_contrib_g))
                      (vmul (vadd rel_contrib_i bias_contrib_i) irrel_contrib_g)
        in if inr then (vadd r (vmul bias_contrib_i bias_contrib_g), ir)
           else (r, vadd ir (vmul bias_contrib_i bias_contrib_g)))"

text \<open>Lines 131 to 135: the forget gate blends in the previous cell-state rows.\<close>

definition forget_blend ::
  "vec \<times> vec \<times> vec \<Rightarrow> vec \<times> vec \<Rightarrow> vec \<times> vec \<Rightarrow> vec \<times> vec" where
  "forget_blend cf cur prev =
     (case cf of (rel_contrib_f, irrel_contrib_f, bias_contrib_f) \<Rightarrow>
      case cur of (r, ir) \<Rightarrow>
      case prev of (prev_rel, prev_irrel) \<Rightarrow>
        (vadd r (vmul (vadd rel_contrib_f bias_contrib_f) prev_rel),
         vadd ir (vadd (vmul (vadd (vadd rel_contrib_f irrel_contrib_f) bias_contrib_f)
                          prev_irrel)
                       (vmul irrel_contrib_f prev_rel))))"

text \<open>Line 137: the output gate of timestep \<open>i\<close>.\<close>

definition output_gate :: "lstm_gates \<Rightarrow> vec \<Rightarrow> vec \<Rightarrow> vec \<Rightarrow> vec" where
  "output_gate G x prev_rel_h prev_irrel_h =
     map sigmoid (vadd (vadd (np_dot (W_io G) x)
                             (np_dot (W_ho G) (vadd prev_rel_h prev_irrel_h)))
                       (b_o G))"

text \<open>
  Lines 120 to 143: from the pre-activations \<open>p\<close> of the timestep to the rows
  \<^verbatim>\<open>relevant[i]\<close>, \<^verbatim>\<open>irrelevant[i]\<close>, \<^verbatim>\<open>relevant_h[i]\<close> and \<^verbatim>\<open>irrelevant_h[i]\<close>. The
  previous cell-state rows are read only when \<open>i > 0\<close>. Line 138 computes a triple for
  the output gate that nothing reads; the gate value \<^verbatim>\<open>o\<close> of line 137 is \<open>og\<close> here.
\<close>

definition cd_text_body ::
  "propagators \<Rightarrow> lstm_gates \<Rightarrow> int \<Rightarrow> int \<Rightarrow> nat \<Rightarrow> vec \<Rightarrow>
   vec \<times> vec \<Rightarrow> vec \<times> vec \<Rightarrow> preacts \<Rightarrow> (vec \<times> vec) \<times> (vec \<times> vec)" where
  "cd_text_body P G start stop i x prev_c prev_h p =
     (case prev_h of (prev_rel_h, prev_irrel_h) \<Rightarrow>
        let ci = propagate_three P (rel_i p) (irrel_i p) (b_i G) sigmoid;
            cg = propagate_three P (rel_g p) (irrel_g p) (b_g G) tanh;
            c0 = cell_update (in_range start stop i) ci cg;
            c1 = (if i > 0
                  then forget_blend
                         (propagate_three P (rel_f p) (irrel_f p) (b_f G) sigmoid) c0 prev_c
                  else c0);
            og = output_gate G x prev_rel_h prev_irrel_h;
            nh = propagate_tanh_two P (fst c1) (snd c1)
        in (c1, (vmul og (fst nh), vmul og (snd nh))))"

text \<open>
  The body of the loop, lines 100 to 143, as a function of the rows of timestep
  \<open>i - 1\<close>: the pre-activations of lines 100 to 118, then lines 120 to 143.
\<close>

definition cd_text_rows ::
  "propagators \<Rightarrow> lstm_gates \<Rightarrow> int \<Rightarrow> int \<Rightarrow> nat \<Rightarrow> vec \<Rightarrow>
   vec \<times> vec \<Rightarrow> vec \<times> vec \<Rightarrow> (vec \<times> vec) \<times> (vec \<times> vec)" where
  "cd_text_rows P G start stop i x prev_c prev_h =
     (case prev_h of (prev_rel_h, prev_irrel_h) \<Rightarrow>
        let p = gate_preacts G start stop i x prev_rel_h prev_irrel_h
        in cd_text_body P G start stop i x prev_c prev_h p)"

text \<open>
  Where the body raises. With the total functions above, the operands of the body fit
  when: the recurrent blocks fit the previous hidden rows (lines 100 to 107) and the
  input blocks the word vector (lines 110 to 118 and 137); the two terms of each sum of
  lines 110 to 118 and 137 have one length; the three arguments of each call of
  \<^verbatim>\<open>propagate_three\<close> have one shape, as section 4.1 of the spec demands of the helpers
  (lines 120, 121, 132 and 138); the contributions that lines 123 to 135 multiply, add
  and store in a row have the length \<open>h\<close> of a row; and so have the gate and the two
  parts of \<^verbatim>\<open>propagate_tanh_two\<close> that lines 142 and 143 multiply and store.
\<close>

definition body_fits ::
  "propagators \<Rightarrow> lstm_gates \<Rightarrow> nat \<Rightarrow> int \<Rightarrow> int \<Rightarrow> nat \<Rightarrow> vec \<Rightarrow>
   vec \<times> vec \<Rightarrow> vec \<times> vec \<Rightarrow> bool" where
  "body_fits P G h start stop i x prev_c prev_h =
     (case prev_h of (prev_rel_h, prev_irrel_h) \<Rightarrow>
        let p = gate_preacts G start stop i x prev_rel_h prev_irrel_h;
            ci = propagate_three P (rel_i p) (irrel_i p) (b_i G) sigmoid;
            cg = propagate_three P (rel_g p) (irrel_g p) (b_g G) tanh;
            cf = propagate_three P (rel_f p) (irrel_f p) (b_f G) sigmoid;
            c1 = fst (cd_text_body P G start stop i x prev_c prev_h p);
            nh = propagate_tanh_two P (fst c1) (snd c1)
        in (\<forall>W \<in> {W_hi G, W_hg G, W_hf G, W_ho G}.
              dot_fits W prev_rel_h \<and> dot_fits W prev_irrel_h) \<and>
           (\<forall>W \<in> {W_ii G, W_ig G, W_if G, W_io G}. dot_fits W x) \<and>
           length (W_ii G) = length (W_hi G) \<and> length (W_ig G) = length (W_hg G) \<and>
           length (W_if G) = length (W_hf G) \<and> length (W_io G) = length (W_ho G) \<and>
           length prev_rel_h = length prev_irrel_h \<and>
           length (b_i G) = length (W_hi G) \<and> length (b_g G) = length (W_hg G) \<and>
           (i > 0 \<longrightarrow> length (b_f G) = length (W_hf G)) \<and>
           length (b_o G) = length (W_ho G) \<and>
           (\<forall>v \<in> {fst ci, fst (snd ci), snd (snd ci), fst cg, fst (snd cg), snd (snd cg)}.
              length v = h) \<and>
           (i > 0 \<longrightarrow> (\<forall>v \<in> {fst cf, fst (snd cf), snd (snd cf)}. length v = h)) \<and>
           length (W_ho G) = h \<and> length (fst nh) = h \<and> length (snd nh) = h)"

subsection \<open>The loop and cd\_text\<close>

text \<open>The four arrays of lines 88 to 91, one row per timestep.\<close>

record cd_arrays =
  relevant :: "vec list"
  irrelevant :: "vec list"
  relevant_h :: "vec list"
  irrelevant_h :: "vec list"

definition init_arrays :: "nat \<Rightarrow> nat \<Rightarrow> cd_arrays" where
  "init_arrays T h =
     \<lparr>relevant = replicate T (np_zeros h), irrelevant = replicate T (np_zeros h),
      relevant_h = replicate T (np_zeros h), irrelevant_h = replicate T (np_zeros h)\<rparr>"

text \<open>
  One iteration of \<^verbatim>\<open>for i in range(T)\<close>: lines 93 to 98 read the previous hidden rows
  (zeros at \<open>i = 0\<close>), then the body writes row \<open>i\<close> of the four arrays. The body
  reads \<^verbatim>\<open>relevant[i - 1]\<close> and \<^verbatim>\<open>irrelevant[i - 1]\<close> only when \<open>i > 0\<close>, so the rows
  handed to it at \<open>i = 0\<close> are never used.
\<close>

definition cd_text_step ::
  "propagators \<Rightarrow> lstm_gates \<Rightarrow> nat \<Rightarrow> int \<Rightarrow> int \<Rightarrow> vec list \<Rightarrow> nat \<Rightarrow>
   cd_arrays \<Rightarrow> cd_arrays" where
  "cd_text_step P G h start stop word_vecs i st =
     (let prev_h = (if i > 0 then (relevant_h st ! (i - 1), irrelevant_h st ! (i - 1))
                    else (np_zeros h, np_zeros h));
          prev_c = (relevant st ! (i - 1), irrelevant st ! (i - 1));
          rows = cd_text_rows P G start stop i (word_vecs ! i) prev_c prev_h
      in st\<lparr>relevant := (relevant st)[i := fst (fst rows)],
            irrelevant := (irrelevant st)[i := snd (fst rows)],
            relevant_h := (relevant_h st)[i := fst (snd rows)],
            irrelevant_h := (irrelevant_h st)[i := snd (snd rows)]\<rparr>)"

definition cd_text_loop ::
  "propagators \<Rightarrow> lstm_gates \<Rightarrow> nat \<Rightarrow> int \<Rightarrow> int \<Rightarrow> vec list \<Rightarrow> nat \<Rightarrow> cd_arrays" where
  "cd_text_loop P G h start stop word_vecs n =
     fold (cd_text_step P G h start stop word_vecs) [0..<n]
          (init_arrays (length word_vecs) h)"

text \<open>
  \<^verbatim>\<open>relevant[j - 1]\<close> and \<^verbatim>\<open>irrelevant[j - 1]\<close>; \<^verbatim>\<open>prev_rel_h\<close> and \<^verbatim>\<open>prev_irrel_h\<close> of lines
  93 to 98; and the four rows of timestep \<open>j\<close>.
\<close>

definition prev_c :: "cd_arrays \<Rightarrow> nat \<Rightarrow> vec \<times> vec" where
  "prev_c st j = (relevant st ! (j - 1), irrelevant st ! (j - 1))"

definition prev_h :: "nat \<Rightarrow> cd_arrays \<Rightarrow> nat \<Rightarrow> vec \<times> vec" where
  "prev_h h st j = (if j > 0 then (relevant_h st ! (j - 1), irrelevant_h st ! (j - 1))
                    else (np_zeros h, np_zeros h))"

definition rows_at :: "cd_arrays \<Rightarrow> nat \<Rightarrow> (vec \<times> vec) \<times> (vec \<times> vec)" where
  "rows_at st j = ((relevant st ! j, irrelevant st ! j), (relevant_h st ! j, irrelevant_h st ! j))"

text \<open>
  The operands fit in each of the first \<open>n\<close> iterations: iteration \<open>i\<close> runs its body on
  the arrays that the iterations before it have left.
\<close>

definition loop_fits ::
  "propagators \<Rightarrow> lstm_gates \<Rightarrow> nat \<Rightarrow> int \<Rightarrow> int \<Rightarrow> vec list \<Rightarrow> nat \<Rightarrow> bool" where
  "loop_fits P G h start stop word_vecs n \<longleftrightarrow>
     (\<forall>i \<in> set [0..<n].
        body_fits P G h start stop i (word_vecs ! i)
          (prev_c (cd_text_loop P G h start stop word_vecs i) i)
          (prev_h h (cd_text_loop P G h start stop word_vecs i) i))"

text \<open>What \<^verbatim>\<open>cd_text\<close> returns: \<^verbatim>\<open>scores\<close>, or the pair with \<^verbatim>\<open>irrel_scores\<close>.\<close>

datatype cd_result = Scores vec | ScoresPair vec vec

text \<open>
  \<^verbatim>\<open>batch.text\<close> is a tensor of token ids with one row per timestep and one column per
  sequence of the batch; it is given as the list of its columns, each a list of \<open>T\<close>
  token ids. \<^verbatim>\<open>model.embed\<close> embeds every token of the batch, and \<^verbatim>\<open>[:, 0]\<close> takes
  the first column, raising \<^verbatim>\<open>IndexError\<close> on a batch with no column. The loop raises
  \<^verbatim>\<open>ValueError\<close> in the first iteration whose operands do not fit.
  \<^verbatim>\<open>relevant_h[T - 1]\<close> raises \<^verbatim>\<open>IndexError\<close> when \<open>T = 0\<close>, and the two \<^verbatim>\<open>np.dot\<close> of
  lines 148 and 149 raise \<^verbatim>\<open>ValueError\<close> unless the rows of \<^verbatim>\<open>W_out\<close> have the length of
  a hidden row.
\<close>

definition cd_text ::
  "propagators \<Rightarrow> nat list list \<Rightarrow> text_model \<Rightarrow> int \<Rightarrow> int \<Rightarrow> bool \<Rightarrow> error + cd_result" where
  "cd_text P batch_text model start stop return_irrel_scores =
     (case split_gates (lstm model) of
        Inl e \<Rightarrow> Inl e
      | Inr G \<Rightarrow>
     (case map (map (embed model)) batch_text of
        [] \<Rightarrow> Inl IndexError
      | word_vecs # _ \<Rightarrow>
          let T = length word_vecs;
              st = cd_text_loop P G (hidden_dim model) start stop word_vecs T;
              W_out = hidden_to_label_weight model
          in if \<not> loop_fits P G (hidden_dim model) start stop word_vecs T then Inl ValueError
             else if T = 0 then Inl IndexError
             else if \<not> (dot_fits W_out (relevant_h st ! (T - 1)) \<and>
                          dot_fits W_out (irrelevant_h st ! (T - 1)))
             then Inl ValueError
             else let scores = np_dot W_out (relevant_h st ! (T - 1));
                      irrel_scores = np_dot W_out (irrelevant_h st ! (T - 1))
                  in if return_irrel_scores then Inr (ScoresPair scores irrel_scores)
                     else Inr (Scores scores)))"

subsection \<open>Modules and the helpers of the layer-wise propagator\<close>

text \<open>
  An element of \<^verbatim>\<open>list(model.modules())\<close>: \<^verbatim>\<open>cd\<close> reads \<^verbatim>\<open>str(type(mod))\<close> and hands
  the module to a helper. \<^verbatim>\<open>training\<close> is the mode flag that \<^verbatim>\<open>model.eval()\<close> clears,
  \<^verbatim>\<open>params\<close> stands for the parameter tensors of the module.
\<close>

record 'p module =
  type_name :: string
  training :: bool
  params :: 'p

text \<open>\<^verbatim>\<open>model.eval()\<close> clears the mode flag of the model and of every submodule.\<close>

definition model_eval :: "'p module list \<Rightarrow> 'p module list" where
  "model_eval mods = map (\<lambda>m. m\<lparr>training := False\<rparr>) mods"

text \<open>
  The third argument of \<^verbatim>\<open>propagate_relu\<close> and \<^verbatim>\<open>propagate_pooling\<close>: a module, or in
  \<^verbatim>\<open>cd_propagate_mnist\<close> the function \<^verbatim>\<open>F.relu\<close> or
  \<^verbatim>\<open>lambda x: F.max_pool2d(x, 2, return_indices=True)\<close>.
\<close>

datatype 'p layer_arg = Module "'p module" | F_relu | F_max_pool2d

text \<open>
  The helpers that \<^verbatim>\<open>cd.py\<close> imports from \<^verbatim>\<open>cd_propagate\<close>, whose source is absent, and
  the two reshapes of torch that the propagators use. Tensors are values of a type \<open>'t\<close>
  with \<open>1\<close>, \<open>-\<close> and \<open>*\<close>. \<^verbatim>\<open>propagate_pooling\<close> takes the keyword \<^verbatim>\<open>model_type\<close>,
  \<open>None\<close> where the call leaves it out.
\<close>

record ('t, 'p) helpers =
  propagate_conv_linear :: "'t \<Rightarrow> 't \<Rightarrow> 'p module \<Rightarrow> 't \<times> 't"
  propagate_relu :: "'t \<Rightarrow> 't \<Rightarrow> 'p layer_arg \<Rightarrow> 't \<times> 't"
  propagate_pooling :: "'t \<Rightarrow> 't \<Rightarrow> 'p layer_arg \<Rightarrow> string option \<Rightarrow> 't \<times> 't"
  propagate_dropout :: "'t \<Rightarrow> 't \<Rightarrow> 'p module \<Rightarrow> 't \<times> 't"
  reshape_rows :: "'t \<Rightarrow> 't"
  view_320 :: "'t \<Rightarrow> 't"

text \<open>The helpers applied to the pair \<^verbatim>\<open>(relevant, irrelevant)\<close>.\<close>

definition conv_linear :: "('t, 'p) helpers \<Rightarrow> 'p module \<Rightarrow> 't \<times> 't \<Rightarrow> 't \<times> 't" where
  "conv_linear H m s = propagate_conv_linear H (fst s) (snd s) m"

definition relu :: "('t, 'p) helpers \<Rightarrow> 'p layer_arg \<Rightarrow> 't \<times> 't \<Rightarrow> 't \<times> 't" where
  "relu H m s = propagate_relu H (fst s) (snd s) m"

definition pooling ::
  "('t, 'p) helpers \<Rightarrow> 'p layer_arg \<Rightarrow> string option \<Rightarrow> 't \<times> 't \<Rightarrow> 't \<times> 't" where
  "pooling H m model_type s = propagate_pooling H (fst s) (snd s) m model_type"

definition dropout :: "('t, 'p) helpers \<Rightarrow> 'p module \<Rightarrow> 't \<times> 't \<Rightarrow> 't \<times> 't" where
  "dropout H m s = propagate_dropout H (fst s) (snd s) m"

text \<open>\<^verbatim>\<open>x.reshape(x.shape[0], -1)\<close>, also written \<^verbatim>\<open>x.view(x.size(0), -1)\<close>, on both tensors.\<close>

definition flatten :: "('t, 'p) helpers \<Rightarrow> 't \<times> 't \<Rightarrow> 't \<times> 't" where
  "flatten H s = (reshape_rows H (fst s), reshape_rows H (snd s))"

subsection \<open>cd: the generic per-layer loop\<close>

text \<open>
  The body of the loop of lines 44 to 57. \<^verbatim>\<open>'Conv2d' in t\<close> is a substring test on the
  name of the type of the module \<^verbatim>\<open>mod\<close>, here \<open>m\<close>; a module that matches no branch
  leaves the pair as it is.
\<close>

definition cd_layer :: "('t, 'p) helpers \<Rightarrow> 'p module \<Rightarrow> 't \<times> 't \<Rightarrow> 't \<times> 't" where
  "cd_layer H m s =
     (let t = type_name m
      in if sublist ''Conv2d'' t then conv_linear H m s
         else if sublist ''Linear'' t then conv_linear H m (flatten H s)
         else if sublist ''ReLU'' t then relu H (Module m) s
         else if sublist ''MaxPool2d'' t then pooling H (Module m) None s
         else if sublist ''Dropout'' t then dropout H m s
         else s)"

text \<open>
  \<^verbatim>\<open>cd_propagate_mnist\<close>, lines 157 to 176. \<^verbatim>\<open>mods[4]\<close> is the largest index it reads
  of \<^verbatim>\<open>list(model.modules())[1:]\<close>; a shorter list raises \<^verbatim>\<open>IndexError\<close>.
\<close>

definition cd_propagate_mnist ::
  "('t, 'p) helpers \<Rightarrow> 't \<times> 't \<Rightarrow> 'p module list \<Rightarrow> error + 't \<times> 't" where
  "cd_propagate_mnist H s model =
     (let mods = drop 1 model
      in if length mods < 5 then Inl IndexError
         else let s = conv_linear H (mods ! 0) s;
                  s = pooling H F_max_pool2d None s;
                  s = relu H F_relu s;
                  s = conv_linear H (mods ! 1) s;
                  s = pooling H F_max_pool2d None s;
                  s = relu H F_relu s;
                  s = (view_320 H (fst s), view_320 H (snd s));
                  s = conv_linear H (mods ! 3) s;
                  s = relu H F_relu s;
                  s = conv_linear H (mods ! 4) s
              in Inr s)"

text \<open>
  The objects that the caller hands to \<^verbatim>\<open>cd\<close> by reference: the mask array and the
  model, as the list of its modules. \<^verbatim>\<open>cd\<close> returns its result and these objects as
  they are after the call. \<^verbatim>\<open>torch.FloatTensor(mask)\<close> is a new tensor with the values
  of the mask; moving tensors to \<^verbatim>\<open>device\<close> changes no value.
\<close>

record ('t, 'p) cd_heap =
  mask_array :: 't
  model_modules :: "'p module list"

definition cd ::
  "('t::{one,minus,times}, 'p) helpers \<Rightarrow> ('t, 'p) cd_heap \<Rightarrow> 't \<Rightarrow> string option \<Rightarrow>
   (error + 't \<times> 't) \<times> ('t, 'p) cd_heap" where
  "cd H heap im_torch model_type =
     (let heap = heap\<lparr>model_modules := model_eval (model_modules heap)\<rparr>;
          mask = mask_array heap;
          s = (mask * im_torch, (1 - mask) * im_torch)
      in if model_type = Some ''mnist''
         then (cd_propagate_mnist H s (model_modules heap), heap)
         else (Inr (fold (cd_layer H) (model_modules heap) s), heap))"

subsection \<open>cd\_track\_vgg\<close>

text \<open>
  Lines 179 to 293, call by call. \<^verbatim>\<open>mods\<close> is \<^verbatim>\<open>list(model.modules())[2:]\<close> of the model in
  evaluation mode; \<^verbatim>\<open>mods[38]\<close> is the largest index read, and a shorter list raises
  \<^verbatim>\<open>IndexError\<close>. \<^verbatim>\<open>scores\<close> collects the snapshots; \<^verbatim>\<open>clone()\<close> copies a tensor, which
  is the identity on values.
\<close>

definition cd_track_vgg ::
  "('t::{one,minus,times}, 'p) helpers \<Rightarrow> 't \<Rightarrow> 't \<Rightarrow> 'p module list \<Rightarrow> string option \<Rightarrow>
   error + 't \<times> 't \<times> ('t \<times> 't) list" where
  "cd_track_vgg H blob im_torch model model_type =
     (let mods = drop 2 (model_eval model)
      in if length mods < 39 then Inl IndexError
         else let s = (blob * im_torch, (1 - blob) * im_torch);
                  scores = [];
                  s = conv_linear H (mods ! 0) s;
                  scores = scores @ [s];
                  s = relu H (Module (mods ! 1)) s;
                  s = conv_linear H (mods ! 2) s;
                  scores = scores @ [s];
                  s = relu H (Module (mods ! 3)) s;
                  s = pooling H (Module (mods ! 4)) model_type s;
                  s = conv_linear H (mods ! 5) s;
                  scores = scores @ [s];
                  s = relu H (Module (mods ! 6)) s;
                  s = conv_linear H (mods ! 7) s;
                  scores = scores @ [s];
                  s = relu H (Module (mods ! 8)) s;
                  s = pooling H (Module (mods ! 9)) model_type s;
                  s = conv_linear H (mods ! 10) s;
                  scores = scores @ [s];
                  s = relu H (Module (mods ! 11)) s;
                  s = conv_linear H (mods ! 12) s;
                  scores = scores @ [s];
                  s = relu H (Module (mods ! 13)) s;
                  s = conv_linear H (mods ! 14) s;
                  scores = scores @ [s];
                  s = relu H (Module (mods ! 15)) s;
                  s = pooling H (Module (mods ! 16)) model_type s;
                  s = conv_linear H (mods ! 17) s;
                  scores = scores @ [s];
                  s = relu H (Module (mods ! 18)) s;
                  s = conv_linear H (mods ! 19) s;
                  scores = scores @ [s];
                  s = relu H (Module (mods ! 20)) s;
                  s = conv_linear H (mods ! 21) s;
                  scores = scores @ [s];
                  s = relu H (Module (mods ! 22)) s;
                  s = pooling H (Module (mods ! 23)) model_type s;
                  s = conv_linear H (mods ! 24) s;
                  scores = scores @ [s];
                  s = relu H (Module (mods ! 25)) s;
                  s = conv_linear H (mods ! 26) s;
                  scores = scores @ [s];
                  s = relu H (Module (mods ! 27)) s;
                  s = conv_linear H (mods ! 28) s;
                  scores = scores @ [s];
                  s = relu H (Module (mods ! 29)) s;
                  s = pooling H (Module (mods ! 30)) model_type s;
                  s = flatten H s;
                  s = conv_linear H (mods ! 32) s;
                  s = relu H (Module (mods ! 33)) s;
                  s = dropout H (mods ! 34) s;
                  s = conv_linear H (mods ! 35) s;
                  s = relu H (Module (mods ! 36)) s;
                  s = dropout H (mods ! 37) s;
                  s = conv_linear H (mods ! 38) s
              in Inr (fst s, snd s, scores))"

section \<open>Reference definitions\<close>

subsection \<open>Shapes\<close>

text \<open>
  The state dict of a \<^verbatim>\<open>torch.nn.LSTM\<close> with input size \<open>e\<close> and hidden size \<open>h\<close> has the
  shapes below; \<^verbatim>\<open>model.hidden_dim\<close> is that hidden size, and the readout takes a
  hidden row.
\<close>

definition is_mat :: "nat \<Rightarrow> nat \<Rightarrow> mat \<Rightarrow> bool" where
  "is_mat r c W \<longleftrightarrow> length W = r \<and> (\<forall>row \<in> set W. length row = c)"

definition wf_gates :: "nat \<Rightarrow> nat \<Rightarrow> lstm_gates \<Rightarrow> bool" where
  "wf_gates e h G \<longleftrightarrow>
     is_mat h e (W_ii G) \<and> is_mat h e (W_if G) \<and> is_mat h e (W_ig G) \<and> is_mat h e (W_io G) \<and>
     is_mat h h (W_hi G) \<and> is_mat h h (W_hf G) \<and> is_mat h h (W_hg G) \<and> is_mat h h (W_ho G) \<and>
     length (b_i G) = h \<and> length (b_f G) = h \<and> length (b_g G) = h \<and> length (b_o G) = h"

definition wf_text_model :: "nat \<Rightarrow> text_model \<Rightarrow> bool" where
  "wf_text_model e M \<longleftrightarrow>
     is_mat (4 * hidden_dim M) e (weight_ih_l0 (lstm M)) \<and>
     is_mat (4 * hidden_dim M) (hidden_dim M) (weight_hh_l0 (lstm M)) \<and>
     length (bias_ih_l0 (lstm M)) = 4 * hidden_dim M \<and>
     length (bias_hh_l0 (lstm M)) = 4 * hidden_dim M \<and>
     is_mat (length (hidden_to_label_bias M)) (hidden_dim M) (hidden_to_label_weight M)"

subsection \<open>What the text path needs of the absent helpers\<close>

text \<open>
  The spec describes \<^verbatim>\<open>propagate_three\<close> as a split of
  \<^verbatim>\<open>nonlinearity(rel + irrel + bias)\<close> into three contributions and
  \<^verbatim>\<open>propagate_tanh_two\<close> as a split of \<^verbatim>\<open>tanh(a + b)\<close> into two: the parts have the shape of
  the arguments and add up to the activation of the sum.
\<close>

definition splits_three :: "propagators \<Rightarrow> bool" where
  "splits_three P \<longleftrightarrow>
     (\<forall>a b c act. length a = length c \<and> length b = length c \<longrightarrow>
        (case propagate_three P a b c act of (x, y, z) \<Rightarrow>
           length x = length c \<and> length y = length c \<and> length z = length c \<and>
           vadd (vadd x y) z = map act (vadd (vadd a b) c)))"

definition splits_tanh_two :: "propagators \<Rightarrow> bool" where
  "splits_tanh_two P \<longleftrightarrow>
     (\<forall>a b. length a = length b \<longrightarrow>
        (case propagate_tanh_two P a b of (x, y) \<Rightarrow>
           length x = length b \<and> length y = length b \<and>
           vadd x y = map tanh (vadd a b)))"

text \<open>
  Modelled from the spec: \<^verbatim>\<open>propagate_three\<close> and \<^verbatim>\<open>propagate_tanh_two\<close> of
  \<^verbatim>\<open>cd_propagate\<close>, absent from the sources. Section 4.1 has the nonlinearity evaluated
  at zeroed-out combinations of the arguments and the values combined linearly; the
  combination here averages the two orders in which a part can be added, and the bias
  part is the nonlinearity of the bias alone. It is one pair of helpers that meets
  \<^const>\<open>splits_three\<close> and \<^const>\<open>splits_tanh_two\<close>.
\<close>

definition three_parts :: "(real \<Rightarrow> real) \<Rightarrow> real \<times> real \<times> real \<Rightarrow> real \<times> real \<times> real" where
  "three_parts act abc =
     (case abc of (a, b, c) \<Rightarrow>
        ((act (a + c) - act c + (act (a + b + c) - act (b + c))) / 2,
         (act (b + c) - act c + (act (a + b + c) - act (a + c))) / 2,
         act c))"

definition two_parts :: "real \<times> real \<Rightarrow> real \<times> real" where
  "two_parts ab =
     (case ab of (a, b) \<Rightarrow>
        ((tanh a + (tanh (a + b) - tanh b)) / 2, (tanh b + (tanh (a + b) - tanh a)) / 2))"

definition averaging :: propagators where
  "averaging =
     \<lparr>propagate_three = (\<lambda>a b c act.
          let t = map (three_parts act) (zip a (zip b c))
          in (map fst t, map (fst \<circ> snd) t, map (snd \<circ> snd) t)),
      propagate_tanh_two = (\<lambda>a b.
          let t = map two_parts (zip a b) in (map fst t, map snd t))\<rparr>"

subsection \<open>The forward pass of the classifier\<close>

text \<open>
  Modelled from the spec: the standard forward pass of the model that \<^verbatim>\<open>cd_text\<close>
  decomposes, absent from the sources. It is the recurrence of \<^verbatim>\<open>torch.nn.LSTM\<close> on the
  same twelve blocks, from zero hidden and cell state, followed by the readout
  \<^verbatim>\<open>hidden_to_label\<close> of the last hidden state, bias included.
\<close>

definition lstm_cell :: "lstm_gates \<Rightarrow> vec \<Rightarrow> vec \<times> vec \<Rightarrow> vec \<times> vec" where
  "lstm_cell G x hc =
     (case hc of (h, c) \<Rightarrow>
        let i = map sigmoid (vadd (vadd (np_dot (W_ii G) x) (np_dot (W_hi G) h)) (b_i G));
            f = map sigmoid (vadd (vadd (np_dot (W_if G) x) (np_dot (W_hf G) h)) (b_f G));
            g = map tanh (vadd (vadd (np_dot (W_ig G) x) (np_dot (W_hg G) h)) (b_g G));
            og = map sigmoid (vadd (vadd (np_dot (W_io G) x) (np_dot (W_ho G) h)) (b_o G));
            c' = vadd (vmul f c) (vmul i g)
        in (vmul og (map tanh c'), c'))"

definition lstm_forward :: "lstm_gates \<Rightarrow> nat \<Rightarrow> vec list \<Rightarrow> vec \<times> vec" where
  "lstm_forward G h xs = fold (lstm_cell G) xs (np_zeros h, np_zeros h)"

definition lstm_classifier :: "text_model \<Rightarrow> nat list \<Rightarrow> error + vec" where
  "lstm_classifier model col =
     (case split_gates (lstm model) of
        Inl e \<Rightarrow> Inl e
      | Inr G \<Rightarrow>
          if col = [] then Inl IndexError
          else Inr (vadd (np_dot (hidden_to_label_weight model)
                            (fst (lstm_forward G (hidden_dim model) (map (embed model) col))))
                         (hidden_to_label_bias model)))"

subsection \<open>A small text model\<close>

text \<open>
  One hidden unit, word vectors of one entry, two classes: the token \<open>n\<close> is embedded as
  the vector \<open>[n]\<close>.
\<close>

definition tiny_model :: text_model where
  "tiny_model =
     \<lparr>lstm = \<lparr>weight_ih_l0 = [[1], [0], [1], [1]], weight_hh_l0 = [[0], [1], [1], [0]],
              bias_ih_l0 = [0, 0, 0, 0], bias_hh_l0 = [0, 0, 0, 0]\<rparr>,
      hidden_dim = 1,
      embed = (\<lambda>n. [real n]),
      hidden_to_label_weight = [[1], [2]],
      hidden_to_label_bias = [0, 1]\<rparr>"

definition tiny_gates :: lstm_gates where
  "tiny_gates =
     \<lparr>W_ii = [[1]], W_if = [[0]], W_ig = [[1]], W_io = [[1]],
      W_hi = [[0]], W_hf = [[1]], W_hg = [[1]], W_ho = [[0]],
      b_i = [0], b_f = [0], b_g = [0], b_o = [0]\<rparr>"

subsection \<open>The linear decomposition primitive\<close>

text \<open>
  A linear layer: a weight matrix and an optional bias. A convolution is a linear map
  with a bias as well, so on flattened tensors a convolutional layer is such a layer.
\<close>

record linear_layer =
  weight :: mat
  bias :: "vec option"

definition layer_forward :: "linear_layer \<Rightarrow> vec \<Rightarrow> vec" where
  "layer_forward L x =
     (case bias L of None \<Rightarrow> np_dot (weight L) x | Some b \<Rightarrow> vadd (np_dot (weight L) x) b)"

definition all_zero :: "vec \<Rightarrow> bool" where
  "all_zero v \<longleftrightarrow> (\<forall>x \<in> set v. x = 0)"

text \<open>
  Modelled from the spec: \<^verbatim>\<open>propagate_linear_like\<close>, the \<^verbatim>\<open>propagate_conv_linear\<close> of
  \<^verbatim>\<open>cd_propagate\<close>, absent from the sources. Section 4.1: the linear transform is applied
  to \<^verbatim>\<open>relevant\<close> and to \<^verbatim>\<open>irrelevant\<close> separately; the whole bias goes to
  \<^verbatim>\<open>irrelevant\<close>, except that it goes to the side that is not all zero when
  \<^verbatim>\<open>irrelevant\<close> is, and is split evenly when both inputs are all zero.
\<close>

definition propagate_linear_like :: "vec \<Rightarrow> vec \<Rightarrow> linear_layer \<Rightarrow> vec \<times> vec" where
  "propagate_linear_like rel irrel L =
     (let out_rel = np_dot (weight L) rel;
          out_irrel = np_dot (weight L) irrel
      in case bias L of
           None \<Rightarrow> (out_rel, out_irrel)
         | Some b \<Rightarrow>
             if all_zero rel \<and> all_zero irrel
             then (vadd out_rel (map (\<lambda>x. x / 2) b), vadd out_irrel (map (\<lambda>x. x / 2) b))
             else if all_zero irrel then (vadd out_rel b, out_irrel)
             else (out_rel, vadd out_irrel b))"

subsection \<open>Kinds of modules\<close>

text \<open>The five tests of the loop of \<^verbatim>\<open>cd\<close>: a module of a known kind passes one of them.\<close>

definition known_kind :: "string \<Rightarrow> bool" where
  "known_kind t \<longleftrightarrow>
     sublist ''Conv2d'' t \<or> sublist ''Linear'' t \<or> sublist ''ReLU'' t \<or>
     sublist ''MaxPool2d'' t \<or> sublist ''Dropout'' t"

text \<open>
  Modelled from the spec: \<^verbatim>\<open>propagate_dropout\<close> of \<^verbatim>\<open>cd_propagate\<close>, absent from the
  sources. Section 4.1: the same dropout mask is applied to both sides, and at inference
  the helper is a pass-through. \<open>draw\<close> is the random mask of a module in training mode.
\<close>

definition propagate_dropout_spec ::
  "('p module \<Rightarrow> 't \<Rightarrow> 't) \<Rightarrow> 't \<Rightarrow> 't \<Rightarrow> 'p module \<Rightarrow> 't \<times> 't" where
  "propagate_dropout_spec draw rel irrel m =
     (if training m then (draw m rel, draw m irrel) else (rel, irrel))"

subsection \<open>The layers that cd\_track\_vgg propagates\<close>

text \<open>
  The calls of lines 198 to 291 in their order, each with the index of its module in
  \<^verbatim>\<open>mods\<close>: thirteen convolutions with their ReLUs and five poolings, the reshape of
  lines 274 and 275, and the classifier of three linear layers.
\<close>

datatype vgg_op = ConvLinear nat | Relu nat | Pool nat | Drop nat | View

definition vgg_ops :: "vgg_op list" where
  "vgg_ops =
     [ConvLinear 0, Relu 1, ConvLinear 2, Relu 3, Pool 4,
      ConvLinear 5, Relu 6, ConvLinear 7, Relu 8, Pool 9,
      ConvLinear 10, Relu 11, ConvLinear 12, Relu 13, ConvLinear 14, Relu 15, Pool 16,
      ConvLinear 17, Relu 18, ConvLinear 19, Relu 20, ConvLinear 21, Relu 22, Pool 23,
      ConvLinear 24, Relu 25, ConvLinear 26, Relu 27, ConvLinear 28, Relu 29, Pool 30,
      View,
      ConvLinear 32, Relu 33, Drop 34, ConvLinear 35, Relu 36, Drop 37, ConvLinear 38]"

fun apply_op ::
  "('t, 'p) helpers \<Rightarrow> 'p module list \<Rightarrow> string option \<Rightarrow> vgg_op \<Rightarrow> 't \<times> 't \<Rightarrow> 't \<times> 't" where
  "apply_op H mods mt (ConvLinear k) s = conv_linear H (mods ! k) s"
| "apply_op H mods mt (Relu k) s = relu H (Module (mods ! k)) s"
| "apply_op H mods mt (Pool k) s = pooling H (Module (mods ! k)) mt s"
| "apply_op H mods mt (Drop k) s = dropout H (mods ! k) s"
| "apply_op H mods mt View s = flatten H s"

text \<open>
  The pair \<^verbatim>\<open>(relevant, irrelevant)\<close> at every layer boundary: one entry after each
  layer, none for the reshape, which is not a layer.
\<close>

fun layer_boundaries ::
  "('t, 'p) helpers \<Rightarrow> 'p module list \<Rightarrow> string option \<Rightarrow> vgg_op list \<Rightarrow> 't \<times> 't \<Rightarrow>
   ('t \<times> 't) list" where
  "layer_boundaries H mods mt [] s = []"
| "layer_boundaries H mods mt (View # ops) s = layer_boundaries H mods mt ops (flatten H s)"
| "layer_boundaries H mods mt (op # ops) s =
     apply_op H mods mt op s # layer_boundaries H mods mt ops (apply_op H mods mt op s)"

text \<open>
  Helpers that count: every helper adds one to both tensors, here integers, so that
  the pair after \<open>k\<close> layers is \<open>(k, k)\<close> when it starts at \<open>(0, 0)\<close>.
\<close>

definition counting :: "(int, unit) helpers" where
  "counting =
     \<lparr>propagate_conv_linear = (\<lambda>r i m. (r + 1, i + 1)),
      propagate_relu = (\<lambda>r i m. (r + 1, i + 1)),
      propagate_pooling = (\<lambda>r i m mt. (r + 1, i + 1)),
      propagate_dropout = (\<lambda>r i m. (r + 1, i + 1)),
      reshape_rows = (\<lambda>x. x),
      view_320 = (\<lambda>x. x)\<rparr>"

definition some_module :: "unit module" where
  "some_module = \<lparr>type_name = ''torch.nn.modules.pooling.AvgPool2d'', training = True, params = ()\<rparr>"

text \<open>
  A model of forty-one modules for \<^verbatim>\<open>cd_track_vgg\<close>, a dropout module in training mode,
  and helpers whose dropout is the one modelled above, with a mask that zeroes a tensor.
\<close>

definition vgg_model :: "unit module list" where
  "vgg_model = replicate 41 some_module"

definition dropout_module :: "unit module" where
  "dropout_module = \<lparr>type_name = ''torch.nn.modules.dropout.Dropout'', training = True, params = ()\<rparr>"

definition zeroing :: "(int, unit) helpers" where
  "zeroing = counting\<lparr>propagate_dropout := propagate_dropout_spec (\<lambda>m x. 0)\<rparr>"

section \<open>Properties\<close>

subsection \<open>Vectors\<close>

lemma length_vadd [simp]: "length (vadd u v) = min (length u) (length v)"
  by (simp add: vadd_def)

lemma length_vmul [simp]: "length (vmul u v) = min (length u) (length v)"
  by (simp add: vmul_def)

lemma length_vsub [simp]: "length (vsub u v) = min (length u) (length v)"
  by (simp add: vsub_def)

lemma length_np_dot [simp]: "length (np_dot W v) = length W"
  by (simp add: np_dot_def)

lemma length_np_zeros [simp]: "length (np_zeros n) = n"
  by (simp add: np_zeros_def)

lemma nth_vadd [simp]: "k < length u \<Longrightarrow> k < length v \<Longrightarrow> vadd u v ! k = u ! k + v ! k"
  by (simp add: vadd_def)

lemma nth_vmul [simp]: "k < length u \<Longrightarrow> k < length v \<Longrightarrow> vmul u v ! k = u ! k * v ! k"
  by (simp add: vmul_def)

lemma nth_vsub [simp]: "k < length u \<Longrightarrow> k < length v \<Longrightarrow> vsub u v ! k = u ! k - v ! k"
  by (simp add: vsub_def)

lemma nth_np_dot [simp]: "k < length W \<Longrightarrow> np_dot W v ! k = inner (W ! k) v"
  by (simp add: np_dot_def)

lemma nth_np_zeros [simp]: "k < n \<Longrightarrow> np_zeros n ! k = 0"
  by (simp add: np_zeros_def)

lemma inner_vadd: "length u = length v \<Longrightarrow> inner r (vadd u v) = inner r u + inner r v"
proof (induction r arbitrary: u v)
  case Nil
  then show ?case by (simp add: inner_def)
next
  case (Cons a r)
  show ?case
  proof (cases u)
    case Nil
    with Cons.prems show ?thesis by (simp add: inner_def vadd_def)
  next
    case (Cons b u')
    with Cons.prems obtain c v' where v: "v = c # v'" "length u' = length v'"
      by (cases v) auto
    from Cons.IH [OF v(2)] show ?thesis
      using Cons v by (simp add: inner_def vadd_def algebra_simps)
  qed
qed

lemma inner_zeros [simp]: "inner r (np_zeros n) = 0"
proof (induction r arbitrary: n)
  case Nil
  then show ?case by (simp add: inner_def)
next
  case (Cons a r)
  then show ?case by (cases n) (simp_all add: inner_def np_zeros_def)
qed


subsection \<open>Shapes and splits\<close>

lemma is_mat_nth: "is_mat r c W \<Longrightarrow> k < r \<Longrightarrow> length (W ! k) = c"
  by (simp add: is_mat_def)

lemma is_mat_length: "is_mat r c W \<Longrightarrow> length W = r"
  by (simp add: is_mat_def)

lemma splits_threeD:
  assumes "splits_three P" "length a = n" "length b = n" "length c = n"
    and "propagate_three P a b c act = (x, y, z)"
  shows "length x = n" "length y = n" "length z = n"
    "\<And>k. k < n \<Longrightarrow> x ! k + y ! k + z ! k = act (a ! k + b ! k + c ! k)"
proof -
  from assms have *: "length x = n \<and> length y = n \<and> length z = n \<and>
      vadd (vadd x y) z = map act (vadd (vadd a b) c)"
    unfolding splits_three_def by (metis (mono_tags, lifting) case_prod_conv)
  then show "length x = n" "length y = n" "length z = n" by simp_all
  fix k assume k: "k < n"
  from * have len: "length x = n" "length y = n" "length z = n" by simp_all
  from * have "vadd (vadd x y) z ! k = map act (vadd (vadd a b) c) ! k" by simp
  with len k assms(2-4) show "x ! k + y ! k + z ! k = act (a ! k + b ! k + c ! k)" by simp
qed

lemma splits_tanh_twoD:
  assumes "splits_tanh_two P" "length a = n" "length b = n"
    and "propagate_tanh_two P a b = (x, y)"
  shows "length x = n" "length y = n"
    "\<And>k. k < n \<Longrightarrow> x ! k + y ! k = tanh (a ! k + b ! k)"
proof -
  from assms have *: "length x = n \<and> length y = n \<and> vadd x y = map tanh (vadd a b)"
    unfolding splits_tanh_two_def by (metis (mono_tags, lifting) case_prod_conv)
  then show "length x = n" "length y = n" by simp_all
  fix k assume k: "k < n"
  from * have len: "length x = n" "length y = n" by simp_all
  from * have "vadd x y ! k = map tanh (vadd a b) ! k" by simp
  with len k assms(2-3) show "x ! k + y ! k = tanh (a ! k + b ! k)" by simp
qed



subsection \<open>One timestep adds up to one LSTM cell\<close>

lemma preacts_length:
  assumes "wf_gates e h G"
  shows "length (rel_i (gate_preacts G start stop i x a b)) = h"
    "length (rel_g (gate_preacts G start stop i x a b)) = h"
    "length (rel_f (gate_preacts G start stop i x a b)) = h"
    "length (rel_o (gate_preacts G start stop i x a b)) = h"
    "length (irrel_i (gate_preacts G start stop i x a b)) = h"
    "length (irrel_g (gate_preacts G start stop i x a b)) = h"
    "length (irrel_f (gate_preacts G start stop i x a b)) = h"
    "length (irrel_o (gate_preacts G start stop i x a b)) = h"
  using assms by (simp_all add: gate_preacts_def wf_gates_def is_mat_def Let_def)

lemma preacts_sum:
  assumes "wf_gates e h G" "length a = length b" "k < h"
  shows "rel_i (gate_preacts G start stop i x a b) ! k + irrel_i (gate_preacts G start stop i x a b) ! k
         = inner (W_ii G ! k) x + inner (W_hi G ! k) (vadd a b)"
    "rel_g (gate_preacts G start stop i x a b) ! k + irrel_g (gate_preacts G start stop i x a b) ! k
         = inner (W_ig G ! k) x + inner (W_hg G ! k) (vadd a b)"
    "rel_f (gate_preacts G start stop i x a b) ! k + irrel_f (gate_preacts G start stop i x a b) ! k
         = inner (W_if G ! k) x + inner (W_hf G ! k) (vadd a b)"
    "rel_o (gate_preacts G start stop i x a b) ! k + irrel_o (gate_preacts G start stop i x a b) ! k
         = inner (W_io G ! k) x + inner (W_ho G ! k) (vadd a b)"
  using assms
  by (simp_all add: gate_preacts_def wf_gates_def is_mat_def Let_def inner_vadd)

lemma cell_update_sum:
  assumes "length ri = h" "length ii = h" "length bi = h"
    "length rg = h" "length ig = h" "length bg = h"
    "cell_update inr (ri, ii, bi) (rg, ig, bg) = (r, ir)"
  shows "length r = h" "length ir = h"
    "\<And>k. k < h \<Longrightarrow> r ! k + ir ! k = (ri ! k + ii ! k + bi ! k) * (rg ! k + ig ! k + bg ! k)"
proof -
  from assms show "length r = h" "length ir = h"
    by (auto simp: cell_update_def Let_def split: if_splits)
  fix k assume "k < h"
  with assms show "r ! k + ir ! k = (ri ! k + ii ! k + bi ! k) * (rg ! k + ig ! k + bg ! k)"
    by (auto simp: cell_update_def Let_def algebra_simps split: if_splits)
qed

lemma forget_blend_sum:
  assumes "length rf = h" "length i_f = h" "length bf = h"
    "length r = h" "length ir = h" "length pp = h" "length pq = h"
    "forget_blend (rf, i_f, bf) (r, ir) (pp, pq) = (r', ir')"
  shows "length r' = h" "length ir' = h"
    "\<And>k. k < h \<Longrightarrow> r' ! k + ir' ! k =
        (rf ! k + i_f ! k + bf ! k) * (pp ! k + pq ! k) + (r ! k + ir ! k)"
proof -
  from assms show "length r' = h" "length ir' = h"
    by (auto simp: forget_blend_def)
  fix k assume "k < h"
  with assms show "r' ! k + ir' ! k =
        (rf ! k + i_f ! k + bf ! k) * (pp ! k + pq ! k) + (r ! k + ir ! k)"
    by (auto simp: forget_blend_def algebra_simps)
qed

lemma cd_text_rows_sum:
  assumes wf: "wf_gates e h G" and s3: "splits_three P" and s2: "splits_tanh_two P"
    and lh: "length phr = h" "length phi = h"
    and lc: "i > 0 \<Longrightarrow> length pcr = h \<and> length pci = h"
    and rows: "cd_text_rows P G start stop i x (pcr, pci) (phr, phi) = ((cr, ci), (hr, hi))"
  shows "length cr = h \<and> length ci = h \<and> length hr = h \<and> length hi = h \<and>
         (vadd hr hi, vadd cr ci) =
           lstm_cell G x (vadd phr phi, if i > 0 then vadd pcr pci else np_zeros h)"
proof -
  define p where "p = gate_preacts G start stop i x phr phi"
  note pl = preacts_length [OF wf, of start stop i x phr phi, folded p_def]
  have lhh: "length phr = length phi" using lh by simp
  note ps = preacts_sum [OF wf lhh, of _ start stop i x, folded p_def]
  from wf have lb: "length (b_i G) = h" "length (b_f G) = h" "length (b_g G) = h"
    "length (b_o G) = h" by (simp_all add: wf_gates_def)
  from wf have lw: "length (W_ii G) = h" "length (W_if G) = h" "length (W_ig G) = h"
    "length (W_io G) = h" "length (W_hi G) = h" "length (W_hf G) = h" "length (W_hg G) = h"
    "length (W_ho G) = h" by (simp_all add: wf_gates_def is_mat_def)
  obtain ri ii bi where ci: "propagate_three P (rel_i p) (irrel_i p) (b_i G) sigmoid = (ri, ii, bi)"
    by (cases "propagate_three P (rel_i p) (irrel_i p) (b_i G) sigmoid") auto
  obtain rg ig bg where cg: "propagate_three P (rel_g p) (irrel_g p) (b_g G) tanh = (rg, ig, bg)"
    by (cases "propagate_three P (rel_g p) (irrel_g p) (b_g G) tanh") auto
  obtain rf jf bf where cf: "propagate_three P (rel_f p) (irrel_f p) (b_f G) sigmoid = (rf, jf, bf)"
    by (cases "propagate_three P (rel_f p) (irrel_f p) (b_f G) sigmoid") auto
  note di = splits_threeD [OF s3 pl(1) pl(5) lb(1) ci]
  note dg = splits_threeD [OF s3 pl(2) pl(6) lb(3) cg]
  note df = splits_threeD [OF s3 pl(3) pl(7) lb(2) cf]
  obtain r0 ir0 where c0: "cell_update (in_range start stop i) (ri, ii, bi) (rg, ig, bg) = (r0, ir0)"
    by (cases "cell_update (in_range start stop i) (ri, ii, bi) (rg, ig, bg)") auto
  note d0 = cell_update_sum [OF di(1-3) dg(1-3) c0]
  define c1 where "c1 = (if i > 0 then forget_blend (rf, jf, bf) (r0, ir0) (pcr, pci) else (r0, ir0))"
  have R: "cd_text_rows P G start stop i x (pcr, pci) (phr, phi) =
      (c1, (vmul (output_gate G x phr phi) (fst (propagate_tanh_two P (fst c1) (snd c1))),
            vmul (output_gate G x phr phi) (snd (propagate_tanh_two P (fst c1) (snd c1)))))"
    by (simp only: cd_text_rows_def cd_text_body_def prod.case Let_def p_def [symmetric] ci cg cf c0 c1_def)
  have c1: "(cr, ci) = (if i > 0 then forget_blend (rf, jf, bf) (r0, ir0) (pcr, pci) else (r0, ir0))"
    using rows R by (simp add: c1_def)
  have lcr': "length cr = h \<and> length ci = h"
  proof (cases "i > 0")
    case True
    with c1 have fb: "forget_blend (rf, jf, bf) (r0, ir0) (pcr, pci) = (cr, ci)" by simp
    from True lc have "length pcr = h" "length pci = h" by simp_all
    from forget_blend_sum(1,2) [OF df(1-3) d0(1,2) this fb]
    show ?thesis by simp
  next
    case False
    with c1 d0 show ?thesis by simp
  qed
  then have lcr: "length cr = h" "length ci = h" by simp_all
  have sumc: "cr ! k + ci ! k =
        (if i > 0 then (rf ! k + jf ! k + bf ! k) * (pcr ! k + pci ! k) else 0)
        + (ri ! k + ii ! k + bi ! k) * (rg ! k + ig ! k + bg ! k)" if k: "k < h" for k
  proof (cases "i > 0")
    case True
    with c1 have fb: "forget_blend (rf, jf, bf) (r0, ir0) (pcr, pci) = (cr, ci)" by simp
    from True lc have "length pcr = h" "length pci = h" by simp_all
    from forget_blend_sum(3) [OF df(1-3) d0(1,2) this fb k] d0(3) [OF k] True
    show ?thesis by simp
  next
    case False
    with c1 d0(3) [OF k] show ?thesis by simp
  qed
  obtain nr ni where nh: "propagate_tanh_two P cr ci = (nr, ni)"
    by (cases "propagate_tanh_two P cr ci") auto
  note dn = splits_tanh_twoD [OF s2 lcr nh]
  have hrows: "hr = vmul (output_gate G x phr phi) nr" "hi = vmul (output_gate G x phr phi) ni"
    using rows R c1 [symmetric] nh by (simp_all add: c1_def)
  have lo: "length (output_gate G x phr phi) = h"
    using lw lb lh by (simp add: output_gate_def)
  have lhr: "length hr = h" "length hi = h" using hrows lo dn by simp_all
  let ?hc = "lstm_cell G x (vadd phr phi, if i > 0 then vadd pcr pci else np_zeros h)"
  have lpc: "length (if i > 0 then vadd pcr pci else np_zeros h) = h"
    using lc by simp
  have pck: "\<And>k. k < h \<Longrightarrow> (if i > 0 then vadd pcr pci else np_zeros h) ! k
      = (if i > 0 then pcr ! k + pci ! k else 0)"
    using lc by simp
  have e2: "vadd cr ci = snd ?hc"
  proof (rule nth_equalityI)
    show "length (vadd cr ci) = length (snd ?hc)"
      using lcr lw lb lh lpc by (simp add: lstm_cell_def Let_def)
    fix k assume "k < length (vadd cr ci)"
    then have k: "k < h" using lcr by simp
    have "snd ?hc ! k =
        sigmoid (inner (W_if G ! k) x + inner (W_hf G ! k) (vadd phr phi) + b_f G ! k)
          * (if i > 0 then pcr ! k + pci ! k else 0)
        + sigmoid (inner (W_ii G ! k) x + inner (W_hi G ! k) (vadd phr phi) + b_i G ! k)
          * tanh (inner (W_ig G ! k) x + inner (W_hg G ! k) (vadd phr phi) + b_g G ! k)"
      using k lw lb lh lpc pck [OF k] by (simp add: lstm_cell_def Let_def)
    also have "\<dots> = cr ! k + ci ! k"
      using sumc [OF k] di(4) [OF k] dg(4) [OF k] df(4) [OF k] ps [OF k] by simp
    finally show "vadd cr ci ! k = snd ?hc ! k" using k lcr by simp
  qed
  have e1: "vadd hr hi = fst ?hc"
  proof (rule nth_equalityI)
    show "length (vadd hr hi) = length (fst ?hc)"
      using lhr lw lb lh lpc by (simp add: lstm_cell_def Let_def)
    fix k assume "k < length (vadd hr hi)"
    then have k: "k < h" using lhr by simp
    have og: "output_gate G x phr phi ! k =
        sigmoid (inner (W_io G ! k) x + inner (W_ho G ! k) (vadd phr phi) + b_o G ! k)"
      using k lw lb lh by (simp add: output_gate_def)
    have "fst ?hc = vmul (map sigmoid (vadd (vadd (np_dot (W_io G) x)
             (np_dot (W_ho G) (vadd phr phi))) (b_o G))) (map tanh (snd ?hc))"
      by (simp add: lstm_cell_def Let_def)
    then have "fst ?hc ! k = output_gate G x phr phi ! k * tanh (snd ?hc ! k)"
      using k lw lb lh lpc e2 [symmetric] lcr by (simp add: output_gate_def)
    also have "snd ?hc ! k = cr ! k + ci ! k" using e2 [symmetric] k lcr by simp
    finally have "fst ?hc ! k = output_gate G x phr phi ! k * (nr ! k + ni ! k)"
      using dn(3) [OF k] by simp
    then show "vadd hr hi ! k = fst ?hc ! k"
      using k lhr hrows lo dn(1,2) by (simp add: algebra_simps)
  qed
  from e1 e2 lcr lhr show ?thesis by (simp add: prod_eq_iff)
qed


subsection \<open>The loop\<close>

lemma cd_text_loop_Suc:
  "cd_text_loop P G h start stop xs (Suc n) =
     cd_text_step P G h start stop xs n (cd_text_loop P G h start stop xs n)"
  by (simp add: cd_text_loop_def)

lemma cd_text_step_length [simp]:
  "length (relevant (cd_text_step P G h start stop xs i st)) = length (relevant st)"
  "length (irrelevant (cd_text_step P G h start stop xs i st)) = length (irrelevant st)"
  "length (relevant_h (cd_text_step P G h start stop xs i st)) = length (relevant_h st)"
  "length (irrelevant_h (cd_text_step P G h start stop xs i st)) = length (irrelevant_h st)"
  by (simp_all add: cd_text_step_def Let_def)

lemma cd_text_loop_length [simp]:
  "length (relevant (cd_text_loop P G h start stop xs n)) = length xs"
  "length (irrelevant (cd_text_loop P G h start stop xs n)) = length xs"
  "length (relevant_h (cd_text_loop P G h start stop xs n)) = length xs"
  "length (irrelevant_h (cd_text_loop P G h start stop xs n)) = length xs"
  by (induction n) (simp_all add: cd_text_loop_Suc, simp_all add: cd_text_loop_def init_arrays_def)

lemma cd_text_step_other:
  assumes "j \<noteq> i"
  shows "relevant (cd_text_step P G h start stop xs i st) ! j = relevant st ! j"
    "irrelevant (cd_text_step P G h start stop xs i st) ! j = irrelevant st ! j"
    "relevant_h (cd_text_step P G h start stop xs i st) ! j = relevant_h st ! j"
    "irrelevant_h (cd_text_step P G h start stop xs i st) ! j = irrelevant_h st ! j"
  using assms by (simp_all add: cd_text_step_def Let_def)

lemma cd_text_rows_first:
  "cd_text_rows P G start stop 0 x pc ph = cd_text_rows P G start stop 0 x pc' ph"
  by (simp add: cd_text_rows_def cd_text_body_def)

lemma cd_text_step_at:
  assumes "i < length (relevant st)" "i < length (irrelevant st)"
    "i < length (relevant_h st)" "i < length (irrelevant_h st)"
  shows "rows_at (cd_text_step P G h start stop xs i st) i =
           cd_text_rows P G start stop i (xs ! i) (prev_c st i) (prev_h h st i)"
  using assms by (simp add: cd_text_step_def Let_def rows_at_def prev_c_def prev_h_def)

lemma cd_text_loop_row:
  assumes "n \<le> length xs" "j < n"
  shows "rows_at (cd_text_loop P G h start stop xs n) j =
           cd_text_rows P G start stop j (xs ! j)
             (prev_c (cd_text_loop P G h start stop xs n) j)
             (prev_h h (cd_text_loop P G h start stop xs n) j)"
  using assms
proof (induction n)
  case 0
  then show ?case by simp
next
  case (Suc n)
  let ?st = "cd_text_loop P G h start stop xs n"
  let ?st' = "cd_text_step P G h start stop xs n ?st"
  have n: "n < length xs" using Suc.prems by simp
  show ?case
  proof (cases "j = n")
    case True
    have at: "rows_at ?st' n = cd_text_rows P G start stop n (xs ! n) (prev_c ?st n) (prev_h h ?st n)"
      using n by (intro cd_text_step_at) simp_all
    have ph: "prev_h h ?st' n = prev_h h ?st n"
      by (simp add: prev_h_def cd_text_step_other)
    show ?thesis
    proof (cases "n = 0")
      case True
      have "cd_text_rows P G start stop 0 (xs ! 0) (prev_c ?st 0) (prev_h h ?st 0) =
            cd_text_rows P G start stop 0 (xs ! 0) (prev_c ?st' 0) (prev_h h ?st 0)"
        by (rule cd_text_rows_first)
      with at ph \<open>j = n\<close> True show ?thesis
        by (simp add: cd_text_loop_Suc)
    next
      case False
      then have "prev_c ?st' n = prev_c ?st n"
        by (simp add: prev_c_def cd_text_step_other)
      with at ph \<open>j = n\<close> show ?thesis by (simp add: cd_text_loop_Suc)
    qed
  next
    case False
    with Suc.prems have j: "j < n" by simp
    then have "j \<noteq> n" "j - 1 \<noteq> n" by simp_all
    then have "rows_at ?st' j = rows_at ?st j" "prev_c ?st' j = prev_c ?st j"
      "prev_h h ?st' j = prev_h h ?st j"
      by (simp_all add: rows_at_def prev_c_def prev_h_def cd_text_step_other)
    with Suc.IH j n show ?thesis by (simp add: cd_text_loop_Suc)
  qed
qed

lemma lstm_forward_Suc:
  assumes "j < length xs"
  shows "lstm_forward G h (take (Suc j) xs) = lstm_cell G (xs ! j) (lstm_forward G h (take j xs))"
  using assms by (simp add: lstm_forward_def take_Suc_conv_app_nth)

lemma vadd_zeros [simp]: "vadd (np_zeros h) (np_zeros h) = np_zeros h"
  by (rule nth_equalityI) simp_all

lemma cd_text_loop_sum:
  assumes wf: "wf_gates e h G" and s3: "splits_three P" and s2: "splits_tanh_two P"
    and lx: "\<forall>x \<in> set xs. length x = e"
    and n: "n \<le> length xs" and j: "j < n"
  shows "length (relevant (cd_text_loop P G h start stop xs n) ! j) = h \<and>
         length (irrelevant (cd_text_loop P G h start stop xs n) ! j) = h \<and>
         length (relevant_h (cd_text_loop P G h start stop xs n) ! j) = h \<and>
         length (irrelevant_h (cd_text_loop P G h start stop xs n) ! j) = h \<and>
         (vadd (relevant_h (cd_text_loop P G h start stop xs n) ! j)
               (irrelevant_h (cd_text_loop P G h start stop xs n) ! j),
          vadd (relevant (cd_text_loop P G h start stop xs n) ! j)
               (irrelevant (cd_text_loop P G h start stop xs n) ! j)) =
           lstm_forward G h (take (Suc j) xs)"
  using j
proof (induction j)
  case 0
  let ?st = "cd_text_loop P G h start stop xs n"
  have row: "cd_text_rows P G start stop 0 (xs ! 0) (prev_c ?st 0) (np_zeros h, np_zeros h)
      = ((relevant ?st ! 0, irrelevant ?st ! 0), (relevant_h ?st ! 0, irrelevant_h ?st ! 0))"
    using cd_text_loop_row [OF n 0, of P G h start stop] by (simp add: rows_at_def prev_h_def)
  have "0 < length xs" using n 0 by linarith
  from cd_text_rows_sum [OF wf s3 s2 _ _ _ row [unfolded prev_c_def]]
  show ?case using \<open>0 < length xs\<close> by (simp add: lstm_forward_Suc) (simp add: lstm_forward_def)
next
  case (Suc j)
  let ?st = "cd_text_loop P G h start stop xs n"
  from Suc have IH: "length (relevant ?st ! j) = h" "length (irrelevant ?st ! j) = h"
    "length (relevant_h ?st ! j) = h" "length (irrelevant_h ?st ! j) = h"
    "(vadd (relevant_h ?st ! j) (irrelevant_h ?st ! j), vadd (relevant ?st ! j) (irrelevant ?st ! j))
      = lstm_forward G h (take (Suc j) xs)"
    by simp_all
  have row: "cd_text_rows P G start stop (Suc j) (xs ! Suc j)
       (relevant ?st ! j, irrelevant ?st ! j) (relevant_h ?st ! j, irrelevant_h ?st ! j)
      = ((relevant ?st ! Suc j, irrelevant ?st ! Suc j),
         (relevant_h ?st ! Suc j, irrelevant_h ?st ! Suc j))"
    using cd_text_loop_row [OF n Suc.prems, of P G h start stop]
    by (simp add: rows_at_def prev_h_def prev_c_def)
  have sj: "Suc j < length xs" using n Suc.prems by simp
  from cd_text_rows_sum [OF wf s3 s2 IH(3,4) _ row] IH
  show ?case using sj by (simp add: lstm_forward_Suc [OF sj])
qed



subsection \<open>The state dict and the scores\<close>

lemma is_mat_take_drop:
  assumes "is_mat (4 * h) c W" "k < 4"
  shows "is_mat h c (take h (drop (k * h) W))"
proof -
  have "1 \<le> 4 - k" using assms(2) by linarith
  then have "h \<le> (4 - k) * h" by simp
  then have "min (4 * h - k * h) h = h" by (simp add: diff_mult_distrib)
  then show ?thesis
    using assms(1) by (auto simp: is_mat_def dest!: in_set_takeD in_set_dropD)
qed

lemma np_split4_mat:
  assumes "is_mat (4 * h) c W"
  shows "\<exists>A B C D. np_split4 W = Inr (A, B, C, D) \<and> is_mat h c A \<and> is_mat h c B \<and>
           is_mat h c C \<and> is_mat h c D"
proof -
  have l: "length W = 4 * h" using assms by (simp add: is_mat_def)
  have "is_mat h c (take h (drop (0 * h) W))" "is_mat h c (take h (drop (1 * h) W))"
    "is_mat h c (take h (drop (2 * h) W))" "is_mat h c (take h (drop (3 * h) W))"
    using assms by (simp_all only: is_mat_take_drop)
  then show ?thesis using l by (simp add: np_split4_def Let_def)
qed

lemma np_split4_vec:
  assumes "length (v :: 'a list) = 4 * h"
  shows "\<exists>A B C D. np_split4 v = Inr (A, B, C, D) \<and> length A = h \<and> length B = h \<and>
           length C = h \<and> length D = h"
  using assms by (simp add: np_split4_def Let_def)

lemma split_gates_wf:
  assumes "wf_text_model e M"
  shows "\<exists>G. split_gates (lstm M) = Inr G \<and> wf_gates e (hidden_dim M) G"
proof -
  let ?h = "hidden_dim M"
  from assms have a: "is_mat (4 * ?h) e (weight_ih_l0 (lstm M))"
    and b: "is_mat (4 * ?h) ?h (weight_hh_l0 (lstm M))"
    and c: "length (vadd (bias_ih_l0 (lstm M)) (bias_hh_l0 (lstm M))) = 4 * ?h"
    by (simp_all add: wf_text_model_def)
  from np_split4_mat [OF a] obtain A1 B1 C1 D1 where
    1: "np_split4 (weight_ih_l0 (lstm M)) = Inr (A1, B1, C1, D1)"
      "is_mat ?h e A1" "is_mat ?h e B1" "is_mat ?h e C1" "is_mat ?h e D1" by blast
  from np_split4_mat [OF b] obtain A2 B2 C2 D2 where
    2: "np_split4 (weight_hh_l0 (lstm M)) = Inr (A2, B2, C2, D2)"
      "is_mat ?h ?h A2" "is_mat ?h ?h B2" "is_mat ?h ?h C2" "is_mat ?h ?h D2" by blast
  from np_split4_vec [OF c] obtain A3 B3 C3 D3 where
    3: "np_split4 (vadd (bias_ih_l0 (lstm M)) (bias_hh_l0 (lstm M))) = Inr (A3, B3, C3, D3)"
      "length A3 = ?h" "length B3 = ?h" "length C3 = ?h" "length D3 = ?h" by blast
  from assms have "length (bias_ih_l0 (lstm M)) = length (bias_hh_l0 (lstm M))"
    by (simp add: wf_text_model_def)
  then show ?thesis using 1 2 3 by (simp add: split_gates_def wf_gates_def)
qed

lemma vsub_vadd:
  assumes "length a = length b"
  shows "vsub (vadd a b) b = a"
  using assms by (intro nth_equalityI) simp_all

lemma np_dot_vadd:
  assumes "length u = length v"
  shows "vadd (np_dot W u) (np_dot W v) = np_dot W (vadd u v)"
  using assms by (intro nth_equalityI) (simp_all add: inner_vadd)

lemma cd_text_scores:
  assumes "split_gates (lstm M) = Inr G" "col0 \<noteq> []"
    and "loop_fits P G (hidden_dim M) start stop (map (embed M) col0) (length col0)"
    and "dot_fits (hidden_to_label_weight M)
           (relevant_h (cd_text_loop P G (hidden_dim M) start stop (map (embed M) col0)
              (length col0)) ! (length col0 - 1))"
    and "dot_fits (hidden_to_label_weight M)
           (irrelevant_h (cd_text_loop P G (hidden_dim M) start stop (map (embed M) col0)
              (length col0)) ! (length col0 - 1))"
  shows "cd_text P (col0 # rest) M start stop flag =
     (let st = cd_text_loop P G (hidden_dim M) start stop (map (embed M) col0) (length col0);
          scores = np_dot (hidden_to_label_weight M) (relevant_h st ! (length col0 - 1));
          irrel_scores = np_dot (hidden_to_label_weight M) (irrelevant_h st ! (length col0 - 1))
      in Inr (if flag then ScoresPair scores irrel_scores else Scores scores))"
  using assms by (simp add: cd_text_def Let_def)

lemma cd_text_sum_lemma:
  assumes wf: "wf_text_model e M" and s3: "splits_three P" and s2: "splits_tanh_two P"
    and lx: "\<forall>tok \<in> set col0. length (embed M tok) = e"
    and ne: "col0 \<noteq> []"
    and G: "split_gates (lstm M) = Inr G"
  shows "vadd (np_dot (hidden_to_label_weight M)
            (relevant_h (cd_text_loop P G (hidden_dim M) start stop (map (embed M) col0) (length col0))
               ! (length col0 - 1)))
          (np_dot (hidden_to_label_weight M)
            (irrelevant_h (cd_text_loop P G (hidden_dim M) start stop (map (embed M) col0) (length col0))
               ! (length col0 - 1)))
       = np_dot (hidden_to_label_weight M)
           (fst (lstm_forward G (hidden_dim M) (map (embed M) col0)))"
proof -
  let ?xs = "map (embed M) col0"
  let ?T = "length col0"
  let ?st = "cd_text_loop P G (hidden_dim M) start stop ?xs ?T"
  from split_gates_wf [OF wf] G have wfG: "wf_gates e (hidden_dim M) G" by simp
  have lxs: "\<forall>x \<in> set ?xs. length x = e" using lx by simp
  have T: "?T \<le> length ?xs" "?T - 1 < ?T" using ne by simp_all
  from cd_text_loop_sum [OF wfG s3 s2 lxs T, of start stop]
  have len: "length (relevant_h ?st ! (?T - 1)) = length (irrelevant_h ?st ! (?T - 1))"
    and sum: "vadd (relevant_h ?st ! (?T - 1)) (irrelevant_h ?st ! (?T - 1)) =
        fst (lstm_forward G (hidden_dim M) (take (Suc (?T - 1)) ?xs))"
    by (simp_all add: prod_eq_iff)
  have "take (Suc (?T - 1)) ?xs = ?xs" using ne by simp
  with sum np_dot_vadd [OF len] show ?thesis by simp
qed

subsection \<open>The operands fit\<close>

lemma dot_fits_is_mat: "is_mat r c W \<Longrightarrow> length v = c \<Longrightarrow> dot_fits W v"
  by (simp add: dot_fits_def is_mat_def)

lemma body_fits_wf:
  assumes wf: "wf_gates e h G" and s3: "splits_three P" and s2: "splits_tanh_two P"
    and lx: "length x = e"
    and lh: "length phr = h" "length phi = h"
    and lc: "i > 0 \<Longrightarrow> length pcr = h \<and> length pci = h"
  shows "body_fits P G h start stop i x (pcr, pci) (phr, phi)"
proof -
  define p where "p = gate_preacts G start stop i x phr phi"
  note pl = preacts_length [OF wf, of start stop i x phr phi, folded p_def]
  from wf have lb: "length (b_i G) = h" "length (b_f G) = h" "length (b_g G) = h"
    "length (b_o G) = h" by (simp_all add: wf_gates_def)
  from wf have lw: "length (W_ii G) = h" "length (W_if G) = h" "length (W_ig G) = h"
    "length (W_io G) = h" "length (W_hi G) = h" "length (W_hf G) = h" "length (W_hg G) = h"
    "length (W_ho G) = h" by (simp_all add: wf_gates_def is_mat_def)
  from wf lx lh have df:
    "dot_fits (W_hi G) phr" "dot_fits (W_hg G) phr" "dot_fits (W_hf G) phr" "dot_fits (W_ho G) phr"
    "dot_fits (W_hi G) phi" "dot_fits (W_hg G) phi" "dot_fits (W_hf G) phi" "dot_fits (W_ho G) phi"
    "dot_fits (W_ii G) x" "dot_fits (W_ig G) x" "dot_fits (W_if G) x" "dot_fits (W_io G) x"
    by (auto simp: wf_gates_def dot_fits_def is_mat_def)
  obtain ri ii bi where ci: "propagate_three P (rel_i p) (irrel_i p) (b_i G) sigmoid = (ri, ii, bi)"
    by (cases "propagate_three P (rel_i p) (irrel_i p) (b_i G) sigmoid") auto
  obtain rg ig bg where cg: "propagate_three P (rel_g p) (irrel_g p) (b_g G) tanh = (rg, ig, bg)"
    by (cases "propagate_three P (rel_g p) (irrel_g p) (b_g G) tanh") auto
  obtain rf jf bf where cf: "propagate_three P (rel_f p) (irrel_f p) (b_f G) sigmoid = (rf, jf, bf)"
    by (cases "propagate_three P (rel_f p) (irrel_f p) (b_f G) sigmoid") auto
  note di = splits_threeD(1-3) [OF s3 pl(1) pl(5) lb(1) ci]
  note dg = splits_threeD(1-3) [OF s3 pl(2) pl(6) lb(3) cg]
  note df' = splits_threeD(1-3) [OF s3 pl(3) pl(7) lb(2) cf]
  obtain cr ci' hr hi where rows:
    "cd_text_rows P G start stop i x (pcr, pci) (phr, phi) = ((cr, ci'), (hr, hi))"
    by (cases "cd_text_rows P G start stop i x (pcr, pci) (phr, phi)") auto
  from cd_text_rows_sum [OF wf s3 s2 lh lc rows]
  have lcr: "length cr = h" "length ci' = h" by simp_all
  have body: "cd_text_body P G start stop i x (pcr, pci) (phr, phi) p = ((cr, ci'), (hr, hi))"
    using rows by (simp add: cd_text_rows_def p_def)
  obtain nr ni where nh: "propagate_tanh_two P cr ci' = (nr, ni)"
    by (cases "propagate_tanh_two P cr ci'") auto
  note dn = splits_tanh_twoD(1,2) [OF s2 lcr nh]
  show ?thesis
    unfolding body_fits_def prod.case Let_def p_def [symmetric] ci cg cf body
    using df lw lb lh di dg df' dn nh by simp
qed

lemma cd_text_loop_fits:
  assumes wf: "wf_gates e h G" and s3: "splits_three P" and s2: "splits_tanh_two P"
    and lx: "\<forall>x \<in> set xs. length x = e"
    and n: "n \<le> length xs"
  shows "loop_fits P G h start stop xs n"
  unfolding loop_fits_def
proof
  fix i assume "i \<in> set [0..<n]"
  then have i: "i < n" by simp
  let ?st = "cd_text_loop P G h start stop xs i"
  have lxi: "length (xs ! i) = e" using lx i n by simp
  have il: "i \<le> length xs" using i n by simp
  show "body_fits P G h start stop i (xs ! i) (prev_c ?st i) (prev_h h ?st i)"
  proof (cases "i > 0")
    case False
    then have "prev_h h ?st i = (np_zeros h, np_zeros h)" by (simp add: prev_h_def)
    moreover have "body_fits P G h start stop i (xs ! i)
        (relevant ?st ! (i - 1), irrelevant ?st ! (i - 1)) (np_zeros h, np_zeros h)"
      using False by (intro body_fits_wf [OF wf s3 s2 lxi]) simp_all
    ultimately show ?thesis by (simp add: prev_c_def)
  next
    case True
    then have j: "i - 1 < i" by simp
    from cd_text_loop_sum [OF wf s3 s2 lx il j, of start stop]
    have l: "length (relevant ?st ! (i - 1)) = h" "length (irrelevant ?st ! (i - 1)) = h"
      "length (relevant_h ?st ! (i - 1)) = h" "length (irrelevant_h ?st ! (i - 1)) = h"
      by simp_all
    have "body_fits P G h start stop i (xs ! i)
        (relevant ?st ! (i - 1), irrelevant ?st ! (i - 1))
        (relevant_h ?st ! (i - 1), irrelevant_h ?st ! (i - 1))"
      using l by (intro body_fits_wf [OF wf s3 s2 lxi]) simp_all
    with True show ?thesis by (simp add: prev_c_def prev_h_def)
  qed
qed

lemma cd_text_returns:
  assumes wf: "wf_text_model e M" and s3: "splits_three P" and s2: "splits_tanh_two P"
    and lx: "\<forall>tok \<in> set col0. length (embed M tok) = e"
    and ne: "col0 \<noteq> []"
    and G: "split_gates (lstm M) = Inr G"
  shows "cd_text P (col0 # rest) M start stop flag =
     (let st = cd_text_loop P G (hidden_dim M) start stop (map (embed M) col0) (length col0);
          scores = np_dot (hidden_to_label_weight M) (relevant_h st ! (length col0 - 1));
          irrel_scores = np_dot (hidden_to_label_weight M) (irrelevant_h st ! (length col0 - 1))
      in Inr (if flag then ScoresPair scores irrel_scores else Scores scores))"
proof -
  let ?xs = "map (embed M) col0"
  let ?T = "length col0"
  let ?st = "cd_text_loop P G (hidden_dim M) start stop ?xs ?T"
  from split_gates_wf [OF wf] G have wfG: "wf_gates e (hidden_dim M) G" by simp
  have lxs: "\<forall>x \<in> set ?xs. length x = e" using lx by simp
  have T: "?T \<le> length ?xs" "?T - 1 < ?T" using ne by simp_all
  have fits: "loop_fits P G (hidden_dim M) start stop ?xs ?T"
    by (rule cd_text_loop_fits [OF wfG s3 s2 lxs T(1)])
  from cd_text_loop_sum [OF wfG s3 s2 lxs T, of start stop]
  have len: "length (relevant_h ?st ! (?T - 1)) = hidden_dim M"
    "length (irrelevant_h ?st ! (?T - 1)) = hidden_dim M"
    by simp_all
  from wf have "is_mat (length (hidden_to_label_bias M)) (hidden_dim M) (hidden_to_label_weight M)"
    by (simp add: wf_text_model_def)
  with len have d: "dot_fits (hidden_to_label_weight M) (relevant_h ?st ! (?T - 1))"
    "dot_fits (hidden_to_label_weight M) (irrelevant_h ?st ! (?T - 1))"
    by (auto simp: dot_fits_def is_mat_def)
  show ?thesis by (rule cd_text_scores [OF G ne fits d])
qed

subsection \<open>The averaging helpers and the small model\<close>

lemma averaging_three [simp]:
  "propagate_three averaging a b c act =
     (map fst (map (three_parts act) (zip a (zip b c))),
      map (fst \<circ> snd) (map (three_parts act) (zip a (zip b c))),
      map (snd \<circ> snd) (map (three_parts act) (zip a (zip b c))))"
  by (simp add: averaging_def Let_def)

lemma averaging_tanh_two [simp]:
  "propagate_tanh_two averaging a b =
     (map fst (map two_parts (zip a b)), map snd (map two_parts (zip a b)))"
  by (simp add: averaging_def Let_def)

lemma splits_three_averaging: "splits_three averaging"
  unfolding splits_three_def
proof (intro allI impI)
  fix a b c :: vec and act :: "real \<Rightarrow> real"
  assume l: "length a = length c \<and> length b = length c"
  have "vadd (vadd (map fst (map (three_parts act) (zip a (zip b c))))
                   (map (fst \<circ> snd) (map (three_parts act) (zip a (zip b c)))))
             (map (snd \<circ> snd) (map (three_parts act) (zip a (zip b c))))
        = map act (vadd (vadd a b) c)"
    using l by (intro nth_equalityI) (simp_all add: three_parts_def field_simps)
  with l show "case propagate_three averaging a b c act of (x, y, z) \<Rightarrow>
           length x = length c \<and> length y = length c \<and> length z = length c \<and>
           vadd (vadd x y) z = map act (vadd (vadd a b) c)"
    by simp
qed

lemma splits_tanh_two_averaging: "splits_tanh_two averaging"
  unfolding splits_tanh_two_def
proof (intro allI impI)
  fix a b :: vec
  assume l: "length a = length b"
  have "vadd (map fst (map two_parts (zip a b))) (map snd (map two_parts (zip a b)))
        = map tanh (vadd a b)"
    using l by (intro nth_equalityI) (simp_all add: two_parts_def field_simps)
  with l show "case propagate_tanh_two averaging a b of (x, y) \<Rightarrow>
           length x = length b \<and> length y = length b \<and> vadd x y = map tanh (vadd a b)"
    by simp
qed

lemma split_gates_tiny: "split_gates (lstm tiny_model) = Inr tiny_gates"
  by (simp add: split_gates_def tiny_model_def tiny_gates_def np_split4_def vadd_def)

lemma wf_tiny_model: "wf_text_model 1 tiny_model"
  by (simp add: wf_text_model_def tiny_model_def is_mat_def)


subsection \<open>Helpers for the claims\<close>

lemma cd_text_rows_hidden:
  "snd (cd_text_rows P G start stop i x pc ph) =
     (let c = fst (cd_text_rows P G start stop i x pc ph);
          og = output_gate G x (fst ph) (snd ph);
          nh = propagate_tanh_two P (fst c) (snd c)
      in (vmul og (fst nh), vmul og (snd nh)))"
  by (cases ph) (simp add: cd_text_rows_def cd_text_body_def Let_def)

lemma cd_text_rows_cell:
  "fst (cd_text_rows P G start stop i x pc ph) =
     (let p = gate_preacts G start stop i x (fst ph) (snd ph);
          c0 = cell_update (in_range start stop i)
                 (propagate_three P (rel_i p) (irrel_i p) (b_i G) sigmoid)
                 (propagate_three P (rel_g p) (irrel_g p) (b_g G) tanh)
      in if i > 0
         then forget_blend (propagate_three P (rel_f p) (irrel_f p) (b_f G) sigmoid) c0 pc
         else c0)"
  by (cases ph) (simp add: cd_text_rows_def cd_text_body_def Let_def)

lemma three_parts_zero [simp]: "fst (three_parts act (0, b, c)) = 0"
  by (simp add: three_parts_def)

lemma two_parts_zero [simp]: "fst (two_parts (0, b)) = 0"
  by (simp add: two_parts_def)

lemma cd_text_loop_0: "cd_text_loop P G h start stop xs 0 = init_arrays (length xs) h"
  by (simp add: cd_text_loop_def)

lemma loop_start_after_stop:
  "relevant_h (cd_text_loop averaging tiny_gates (Suc 0) 1 0 [[3], [1]] (Suc (Suc 0))) ! Suc 0
     = [0]"
  by (simp add: cd_text_loop_Suc cd_text_loop_0 init_arrays_def
      cd_text_step_def cd_text_rows_def cd_text_body_def gate_preacts_def in_range_def cell_update_def
      forget_blend_def output_gate_def tiny_gates_def Let_def
      np_dot_def inner_def vadd_def vmul_def np_zeros_def three_parts_def two_parts_def)

lemma half_half: "vadd (vadd u (map (\<lambda>x. x / 2) b)) (vadd v (map (\<lambda>x. x / 2) b)) = vadd (vadd u v) b"
  if "length u = length b" "length v = length b"
  using that by (intro nth_equalityI) simp_all

lemma vadd_assoc_left: "vadd (vadd u b) v = vadd (vadd u v) b"
  if "length u = length b" "length v = length b"
  using that by (intro nth_equalityI) simp_all

lemma vadd_assoc: "vadd u (vadd v b) = vadd (vadd u v) b"
  if "length u = length b" "length v = length b"
  using that by (intro nth_equalityI) simp_all

lemma type_name_model_eval [simp]: "map type_name (model_eval mods) = map type_name mods"
  by (simp add: model_eval_def)

lemma params_model_eval [simp]: "map params (model_eval mods) = map params mods"
  by (simp add: model_eval_def)

lemma model_eval_append [simp]: "model_eval (xs @ ys) = model_eval xs @ model_eval ys"
  by (simp add: model_eval_def)

lemma model_eval_Cons [simp]: "model_eval (m # ms) = m\<lparr>training := False\<rparr> # model_eval ms"
  by (simp add: model_eval_def)

lemma model_eval_Nil [simp]: "model_eval [] = []"
  by (simp add: model_eval_def)

lemma model_eval_idem [simp]: "model_eval (model_eval mods) = model_eval mods"
  by (simp add: model_eval_def)

lemma training_model_eval: "m \<in> set (model_eval mods) \<Longrightarrow> \<not> training m"
  by (auto simp: model_eval_def)

lemma cd_layer_unknown: "\<not> known_kind (type_name m) \<Longrightarrow> cd_layer H m s = s"
  by (simp add: cd_layer_def known_kind_def)

lemma not_known_some_module: "\<not> known_kind (type_name some_module)"
  by (simp add: known_kind_def some_module_def sublist_code)

lemma layer_boundaries_vgg:
  "layer_boundaries H mods mt vgg_ops s0 =
     (let b0 = conv_linear H (mods ! 0) s0;
          b1 = relu H (Module (mods ! 1)) b0;
          b2 = conv_linear H (mods ! 2) b1;
          b3 = relu H (Module (mods ! 3)) b2;
          b4 = pooling H (Module (mods ! 4)) mt b3;
          b5 = conv_linear H (mods ! 5) b4;
          b6 = relu H (Module (mods ! 6)) b5;
          b7 = conv_linear H (mods ! 7) b6;
          b8 = relu H (Module (mods ! 8)) b7;
          b9 = pooling H (Module (mods ! 9)) mt b8;
          b10 = conv_linear H (mods ! 10) b9;
          b11 = relu H (Module (mods ! 11)) b10;
          b12 = conv_linear H (mods ! 12) b11;
          b13 = relu H (Module (mods ! 13)) b12;
          b14 = conv_linear H (mods ! 14) b13;
          b15 = relu H (Module (mods ! 15)) b14;
          b16 = pooling H (Module (mods ! 16)) mt b15;
          b17 = conv_linear H (mods ! 17) b16;
          b18 = relu H (Module (mods ! 18)) b17;
          b19 = conv_linear H (mods ! 19) b18;
          b20 = relu H (Module (mods ! 20)) b19;
          b21 = conv_linear H (mods ! 21) b20;
          b22 = relu H (Module (mods ! 22)) b21;
          b23 = pooling H (Module (mods ! 23)) mt b22;
          b24 = conv_linear H (mods ! 24) b23;
          b25 = relu H (Module (mods ! 25)) b24;
          b26 = conv_linear H (mods ! 26) b25;
          b27 = relu H (Module (mods ! 27)) b26;
          b28 = conv_linear H (mods ! 28) b27;
          b29 = relu H (Module (mods ! 29)) b28;
          b30 = pooling H (Module (mods ! 30)) mt b29;
          b31 = conv_linear H (mods ! 32) (flatten H b30);
          b32 = relu H (Module (mods ! 33)) b31;
          b33 = dropout H (mods ! 34) b32;
          b34 = conv_linear H (mods ! 35) b33;
          b35 = relu H (Module (mods ! 36)) b34;
          b36 = dropout H (mods ! 37) b35;
          b37 = conv_linear H (mods ! 38) b36
      in [b0, b1, b2, b3, b4, b5, b6, b7, b8, b9, b10, b11, b12, b13, b14, b15, b16, b17,
          b18, b19, b20, b21, b22, b23, b24, b25, b26, b27, b28, b29, b30, b31, b32, b33,
          b34, b35, b36, b37])"
  by (simp only: vgg_ops_def layer_boundaries.simps apply_op.simps Let_def)

lemma drop_vgg_model: "drop 2 (model_eval vgg_model) = replicate 39 (some_module\<lparr>training := False\<rparr>)"
  by (simp add: vgg_model_def model_eval_def)

lemma counting_simps [simp]:
  "conv_linear counting m s = (fst s + 1, snd s + 1)"
  "relu counting a s = (fst s + 1, snd s + 1)"
  "pooling counting a mt s = (fst s + 1, snd s + 1)"
  "dropout counting m s = (fst s + 1, snd s + 1)"
  "flatten counting s = s"
  by (simp_all add: counting_def conv_linear_def relu_def pooling_def dropout_def flatten_def)

lemma dropout_module_kind:
  "sublist ''Dropout'' (type_name dropout_module)"
  "\<not> sublist ''Conv2d'' (type_name dropout_module)"
  "\<not> sublist ''Linear'' (type_name dropout_module)"
  "\<not> sublist ''ReLU'' (type_name dropout_module)"
  "\<not> sublist ''MaxPool2d'' (type_name dropout_module)"
  by (simp_all add: dropout_module_def sublist_code)

lemma cd_text_tiny:
  "cd_text averaging ([3, 1] # rest) tiny_model start stop flag =
     (let st = cd_text_loop averaging tiny_gates (hidden_dim tiny_model) start stop
                 (map (embed tiny_model) [3, 1]) (length [3, 1 :: nat]);
          scores = np_dot (hidden_to_label_weight tiny_model)
                     (relevant_h st ! (length [3, 1 :: nat] - 1));
          irrel_scores = np_dot (hidden_to_label_weight tiny_model)
                           (irrelevant_h st ! (length [3, 1 :: nat] - 1))
      in Inr (if flag then ScoresPair scores irrel_scores else Scores scores))"
proof -
  have "\<forall>tok \<in> set [3, 1 :: nat]. length (embed tiny_model tok) = 1"
    by (simp add: tiny_model_def)
  moreover have "[3, 1 :: nat] \<noteq> []" by simp
  ultimately show ?thesis
    by (rule cd_text_returns [OF wf_tiny_model splits_three_averaging splits_tanh_two_averaging
          _ _ split_gates_tiny])
qed

lemma cd_text_start_after_stop:
  "cd_text averaging [[3, 1]] tiny_model 1 0 False = Inr (Scores [0, 0])"
proof -
  have "map (embed tiny_model) [3, 1] = [[3], [1]]" "hidden_dim tiny_model = 1"
    "hidden_to_label_weight tiny_model = [[1], [2]]"
    by (simp_all add: tiny_model_def)
  with cd_text_tiny [of "[]" 1 0 False] loop_start_after_stop
  show ?thesis by (simp add: Let_def np_dot_def inner_def)
qed

text \<open>Word vectors of three entries do not fit the input size one of the small model.\<close>

lemma body_fits_word_vector:
  "body_fits P G h start stop i x pc ph \<Longrightarrow> dot_fits (W_ii G) x"
  by (cases ph) (simp add: body_fits_def Let_def)

lemma loop_fits_first:
  assumes "loop_fits P G h start stop xs n" "0 < n"
  shows "dot_fits (W_ii G) (xs ! 0)"
proof -
  from assms(2) have "0 \<in> set [0..<n]" by simp
  with assms(1) have "body_fits P G h start stop 0 (xs ! 0)
      (prev_c (cd_text_loop P G h start stop xs 0) 0)
      (prev_h h (cd_text_loop P G h start stop xs 0) 0)"
    unfolding loop_fits_def by blast
  then show ?thesis by (rule body_fits_word_vector)
qed

lemma cd_text_wrong_size:
  "cd_text averaging [[3, 1]] (tiny_model\<lparr>embed := (\<lambda>n. [real n, 7, 9])\<rparr>) 0 0 False
     = Inl ValueError"
proof -
  let ?M = "tiny_model\<lparr>embed := (\<lambda>n. [real n, 7, 9])\<rparr>"
  have G: "split_gates (lstm ?M) = Inr tiny_gates"
    using split_gates_tiny by simp
  have "\<not> dot_fits (W_ii tiny_gates) (map (embed ?M) [3, 1] ! 0)"
    by (simp add: dot_fits_def tiny_gates_def)
  then have "\<not> loop_fits averaging tiny_gates (hidden_dim ?M) 0 0 (map (embed ?M) [3, 1])
      (length (map (embed ?M) [3, 1 :: nat]))"
    using loop_fits_first [of averaging tiny_gates "hidden_dim ?M" 0 0 "map (embed ?M) [3, 1]"
        "length (map (embed ?M) [3, 1 :: nat])"]
    by auto
  with G show ?thesis by (simp add: cd_text_def Let_def)
qed

section \<open>The claims\<close>

text \<open>
  C1 (modelled from the spec). For a linear or convolutional layer, with or without
  bias, and two inputs of one shape, the outputs of the linear decomposition primitive
  add up to the layer applied to the sum of the inputs, in each of the three cases of
  the bias rule. The equation is one of real arithmetic; the bias has one entry per
  output.
\<close>

theorem propagate_linear_like_sum:
  assumes "length rel = length irrel"
    and "\<forall>b. bias L = Some b \<longrightarrow> length b = length (weight L)"
  shows "case propagate_linear_like rel irrel L of
           (out_rel, out_irrel) \<Rightarrow> vadd out_rel out_irrel = layer_forward L (vadd rel irrel)"
proof (cases "bias L")
  case None
  then show ?thesis
    using assms(1) by (simp add: propagate_linear_like_def layer_forward_def np_dot_vadd Let_def)
next
  case (Some b)
  with assms(2) have lb: "length (np_dot (weight L) rel) = length b"
    "length (np_dot (weight L) irrel) = length b" by simp_all
  show ?thesis
    using Some assms(1) half_half [OF lb] vadd_assoc_left [OF lb] vadd_assoc [OF lb]
    by (simp add: propagate_linear_like_def layer_forward_def np_dot_vadd Let_def)
qed

theorem propagate_linear_like_sum_witness:
  "propagate_linear_like [1, 0] [0, 2] \<lparr>weight = [[1, 2], [3, 4]], bias = Some [10, 20]\<rparr>
     = ([1, 3], [14, 28]) \<and>
   vadd [1, 3] [14, 28]
     = layer_forward \<lparr>weight = [[1, 2], [3, 4]], bias = Some [10, 20]\<rparr> (vadd [1, 0] [0, 2])"
proof -
  have v: "propagate_linear_like [1, 0] [0, 2] \<lparr>weight = [[1, 2], [3, 4]], bias = Some [10, 20]\<rparr>
     = ([1, 3], [14, 28])"
    by (simp add: propagate_linear_like_def all_zero_def np_dot_def inner_def vadd_def)
  have "length [1, 0 :: real] = length [0, 2 :: real]" by simp
  moreover have "\<forall>b. bias \<lparr>weight = [[1, 2], [3, 4]], bias = Some [10, 20]\<rparr> = Some b \<longrightarrow>
      length b = length (weight \<lparr>weight = [[1, 2], [3, 4]], bias = Some [10, 20 :: real]\<rparr>)"
    by simp
  ultimately show ?thesis
    using propagate_linear_like_sum [of "[1, 0]" "[0, 2]"
        "\<lparr>weight = [[1, 2], [3, 4]], bias = Some [10, 20]\<rparr>"] v
    by simp
qed

text \<open>
  C2. In \<^verbatim>\<open>cd_text\<close> the class scores are the readout weight matrix alone, without the
  readout bias, applied to the relevant and to the irrelevant last hidden state
  \<^verbatim>\<open>relevant_h[T - 1]\<close> and \<^verbatim>\<open>irrelevant_h[T - 1]\<close>, and \<^verbatim>\<open>scores + irrel_scores\<close> is
  the output of the LSTM classifier minus the readout bias. This holds over the reals,
  for a state dict with the shapes of \<^verbatim>\<open>torch.nn.LSTM\<close>, word vectors of the input size,
  a sequence of at least one token, and helpers \<^verbatim>\<open>propagate_three\<close> and
  \<^verbatim>\<open>propagate_tanh_two\<close> that split the activation of a sum into parts that add up to
  it; \<^verbatim>\<open>cd_text\<close> then returns, for every \<^verbatim>\<open>start\<close> and \<^verbatim>\<open>stop\<close>.
\<close>

theorem cd_text_scores_sum:
  assumes "wf_text_model e M" and "splits_three P" and "splits_tanh_two P"
    and "\<forall>tok \<in> set col0. length (embed M tok) = e"
    and "col0 \<noteq> []"
  shows "\<exists>G scores irrel_scores logits.
     split_gates (lstm M) = Inr G \<and>
     scores = np_dot (hidden_to_label_weight M)
       (relevant_h (cd_text_loop P G (hidden_dim M) start stop (map (embed M) col0) (length col0))
          ! (length col0 - 1)) \<and>
     irrel_scores = np_dot (hidden_to_label_weight M)
       (irrelevant_h (cd_text_loop P G (hidden_dim M) start stop (map (embed M) col0) (length col0))
          ! (length col0 - 1)) \<and>
     cd_text P (col0 # rest) M start stop True = Inr (ScoresPair scores irrel_scores) \<and>
     cd_text P (col0 # rest) M start stop False = Inr (Scores scores) \<and>
     lstm_classifier M col0 = Inr logits \<and>
     vadd scores irrel_scores = vsub logits (hidden_to_label_bias M)"
proof -
  from split_gates_wf [OF assms(1)] obtain G where
    G: "split_gates (lstm M) = Inr G" and wfG: "wf_gates e (hidden_dim M) G" by blast
  let ?st = "cd_text_loop P G (hidden_dim M) start stop (map (embed M) col0) (length col0)"
  let ?s = "np_dot (hidden_to_label_weight M) (relevant_h ?st ! (length col0 - 1))"
  let ?r = "np_dot (hidden_to_label_weight M) (irrelevant_h ?st ! (length col0 - 1))"
  let ?pre = "np_dot (hidden_to_label_weight M)
                (fst (lstm_forward G (hidden_dim M) (map (embed M) col0)))"
  have sum: "vadd ?s ?r = ?pre"
    by (rule cd_text_sum_lemma [OF assms G])
  have lb: "length ?pre = length (hidden_to_label_bias M)"
    using assms(1) by (simp add: wf_text_model_def is_mat_def)
  have cls: "lstm_classifier M col0 = Inr (vadd ?pre (hidden_to_label_bias M))"
    using G assms(5) by (simp add: lstm_classifier_def)
  have "vsub (vadd ?pre (hidden_to_label_bias M)) (hidden_to_label_bias M) = ?pre"
    by (rule vsub_vadd [OF lb])
  with sum cls G cd_text_returns [OF assms G, of rest start stop] show ?thesis
    by (simp add: Let_def)
qed

theorem cd_text_scores_sum_witness:
  "\<exists>G scores irrel_scores logits.
     split_gates (lstm tiny_model) = Inr G \<and>
     scores = np_dot (hidden_to_label_weight tiny_model)
       (relevant_h (cd_text_loop averaging G (hidden_dim tiny_model) 1 1
           (map (embed tiny_model) [3, 1, 2]) (length [3, 1, 2 :: nat]))
          ! (length [3, 1, 2 :: nat] - 1)) \<and>
     irrel_scores = np_dot (hidden_to_label_weight tiny_model)
       (irrelevant_h (cd_text_loop averaging G (hidden_dim tiny_model) 1 1
           (map (embed tiny_model) [3, 1, 2]) (length [3, 1, 2 :: nat]))
          ! (length [3, 1, 2 :: nat] - 1)) \<and>
     cd_text averaging [[3, 1, 2], [5, 5, 5]] tiny_model 1 1 True
       = Inr (ScoresPair scores irrel_scores) \<and>
     cd_text averaging [[3, 1, 2], [5, 5, 5]] tiny_model 1 1 False = Inr (Scores scores) \<and>
     lstm_classifier tiny_model [3, 1, 2] = Inr logits \<and>
     vadd scores irrel_scores = vsub logits (hidden_to_label_bias tiny_model)"
proof -
  have "\<forall>tok \<in> set [3, 1, 2 :: nat]. length (embed tiny_model tok) = 1"
    by (simp add: tiny_model_def)
  moreover have "[3, 1, 2 :: nat] \<noteq> []" by simp
  ultimately show ?thesis
    using cd_text_scores_sum [OF wf_tiny_model splits_three_averaging splits_tanh_two_averaging,
        of "[3, 1, 2]" 1 1 "[[5, 5, 5]]"]
    by blast
qed

text \<open>
  C3. At every timestep \<open>t\<close> of \<^verbatim>\<open>cd_text\<close> the output gate is one value, the sigmoid
  of the whole pre-activation (the input term, the recurrent term on
  \<^verbatim>\<open>prev_rel_h + prev_irrel_h\<close> and the bias), and the rows \<^verbatim>\<open>relevant_h[t]\<close> and
  \<^verbatim>\<open>irrelevant_h[t]\<close> left by the loop are this gate times the two parts that
  \<^verbatim>\<open>propagate_tanh_two\<close> gives for the cell-state rows of \<open>t\<close>.
\<close>

theorem output_gate_unsplit:
  assumes "t < length xs"
  shows "let st = cd_text_loop P G h start stop xs (length xs);
             ph = prev_h h st t;
             og = map sigmoid
                    (vadd (vadd (np_dot (W_io G) (xs ! t))
                                (np_dot (W_ho G) (vadd (fst ph) (snd ph))))
                          (b_o G));
             nh = propagate_tanh_two P (relevant st ! t) (irrelevant st ! t)
         in relevant_h st ! t = vmul og (fst nh) \<and> irrelevant_h st ! t = vmul og (snd nh)"
proof -
  let ?st = "cd_text_loop P G h start stop xs (length xs)"
  let ?rows = "cd_text_rows P G start stop t (xs ! t) (prev_c ?st t) (prev_h h ?st t)"
  have row: "rows_at ?st t = ?rows"
    using assms by (intro cd_text_loop_row) simp_all
  have rows: "?rows = ((relevant ?st ! t, irrelevant ?st ! t),
                       (relevant_h ?st ! t, irrelevant_h ?st ! t))"
    using row unfolding rows_at_def by (rule sym)
  have c: "fst ?rows = (relevant ?st ! t, irrelevant ?st ! t)"
    and hh: "snd ?rows = (relevant_h ?st ! t, irrelevant_h ?st ! t)"
    by (simp_all add: rows)
  from cd_text_rows_hidden [of P G start stop t "xs ! t" "prev_c ?st t" "prev_h h ?st t"]
  show ?thesis unfolding c hh by (simp add: Let_def output_gate_def)
qed

theorem output_gate_unsplit_witness:
  "let st = cd_text_loop averaging tiny_gates 1 1 1 [[3], [1], [2]] (length [[3], [1], [2 :: real]]);
       ph = prev_h 1 st 2;
       og = map sigmoid
              (vadd (vadd (np_dot (W_io tiny_gates) ([[3], [1], [2]] ! 2))
                          (np_dot (W_ho tiny_gates) (vadd (fst ph) (snd ph))))
                    (b_o tiny_gates));
       nh = propagate_tanh_two averaging (relevant st ! 2) (irrelevant st ! 2)
   in relevant_h st ! 2 = vmul og (fst nh) \<and> irrelevant_h st ! 2 = vmul og (snd nh)"
proof -
  have "(2 :: nat) < length [[3], [1], [2 :: real]]" by simp
  then show ?thesis by (rule output_gate_unsplit)
qed



text \<open>
  C5. At every timestep \<open>t\<close> the cell-state rows that the loop leaves are built from
  the update in which the cross term \<^verbatim>\<open>bias_contrib_i * bias_contrib_g\<close> is added to the
  relevant side when \<open>start \<le> t \<le> stop\<close> and to the irrelevant side otherwise; for
  \<open>t > 0\<close> the forget gate then blends in the rows of \<open>t - 1\<close>.
\<close>

theorem bias_cross_term_routing:
  assumes "t < length xs"
  shows "let st = cd_text_loop P G h start stop xs (length xs);
             ph = prev_h h st t;
             p = gate_preacts G start stop t (xs ! t) (fst ph) (snd ph)
         in case propagate_three P (rel_i p) (irrel_i p) (b_i G) sigmoid of
              (rel_contrib_i, irrel_contrib_i, bias_contrib_i) \<Rightarrow>
            case propagate_three P (rel_g p) (irrel_g p) (b_g G) tanh of
              (rel_contrib_g, irrel_contrib_g, bias_contrib_g) \<Rightarrow>
            let r = vadd (vmul rel_contrib_i (vadd rel_contrib_g bias_contrib_g))
                         (vmul bias_contrib_i rel_contrib_g);
                ir = vadd (vmul irrel_contrib_i
                             (vadd (vadd rel_contrib_g irrel_contrib_g) bias_contrib_g))
                          (vmul (vadd rel_contrib_i bias_contrib_i) irrel_contrib_g);
                cross = vmul bias_contrib_i bias_contrib_g;
                c0 = (if start \<le> int t \<and> int t \<le> stop then (vadd r cross, ir)
                      else (r, vadd ir cross))
            in (relevant st ! t, irrelevant st ! t) =
                 (if t > 0
                  then forget_blend (propagate_three P (rel_f p) (irrel_f p) (b_f G) sigmoid)
                         c0 (relevant st ! (t - 1), irrelevant st ! (t - 1))
                  else c0)"
proof -
  let ?st = "cd_text_loop P G h start stop xs (length xs)"
  let ?rows = "cd_text_rows P G start stop t (xs ! t) (prev_c ?st t) (prev_h h ?st t)"
  have row: "rows_at ?st t = ?rows"
    using assms by (intro cd_text_loop_row) simp_all
  have rows: "?rows = ((relevant ?st ! t, irrelevant ?st ! t),
                       (relevant_h ?st ! t, irrelevant_h ?st ! t))"
    using row unfolding rows_at_def by (rule sym)
  have c: "(relevant ?st ! t, irrelevant ?st ! t) = fst ?rows"
    by (simp add: rows)
  have "(relevant ?st ! t, irrelevant ?st ! t) =
      (let p = gate_preacts G start stop t (xs ! t) (fst (prev_h h ?st t)) (snd (prev_h h ?st t));
           c0 = cell_update (in_range start stop t)
                  (propagate_three P (rel_i p) (irrel_i p) (b_i G) sigmoid)
                  (propagate_three P (rel_g p) (irrel_g p) (b_g G) tanh)
       in if t > 0
          then forget_blend (propagate_three P (rel_f p) (irrel_f p) (b_f G) sigmoid) c0
                 (prev_c ?st t)
          else c0)"
    unfolding c by (rule cd_text_rows_cell)
  then show ?thesis
    by (auto simp: Let_def cell_update_def in_range_def prev_c_def split: prod.splits)
qed

theorem bias_cross_term_routing_witness:
  "let st = cd_text_loop averaging tiny_gates 1 1 1 [[3], [1], [2]] (length [[3], [1], [2 :: real]]);
       ph = prev_h 1 st 1;
       p = gate_preacts tiny_gates 1 1 1 ([[3], [1], [2]] ! 1) (fst ph) (snd ph)
   in case propagate_three averaging (rel_i p) (irrel_i p) (b_i tiny_gates) sigmoid of
        (rel_contrib_i, irrel_contrib_i, bias_contrib_i) \<Rightarrow>
      case propagate_three averaging (rel_g p) (irrel_g p) (b_g tiny_gates) tanh of
        (rel_contrib_g, irrel_contrib_g, bias_contrib_g) \<Rightarrow>
      let r = vadd (vmul rel_contrib_i (vadd rel_contrib_g bias_contrib_g))
                   (vmul bias_contrib_i rel_contrib_g);
          ir = vadd (vmul irrel_contrib_i
                       (vadd (vadd rel_contrib_g irrel_contrib_g) bias_contrib_g))
                    (vmul (vadd rel_contrib_i bias_contrib_i) irrel_contrib_g);
          cross = vmul bias_contrib_i bias_contrib_g;
          c0 = (if (1 :: int) \<le> int 1 \<and> int 1 \<le> 1 then (vadd r cross, ir)
                else (r, vadd ir cross))
      in (relevant st ! 1, irrelevant st ! 1) =
           (if (1 :: nat) > 0
            then forget_blend
                   (propagate_three averaging (rel_f p) (irrel_f p) (b_f tiny_gates) sigmoid)
                   c0 (relevant st ! (1 - 1), irrelevant st ! (1 - 1))
            else c0)"
proof -
  have "(1 :: nat) < length [[3], [1], [2 :: real]]" by simp
  then show ?thesis by (rule bias_cross_term_routing)
qed

text \<open>
  C6. A module whose type name passes none of the five tests leaves the pair
  \<^verbatim>\<open>(relevant, irrelevant)\<close> as it is, and the loop of \<^verbatim>\<open>cd\<close> over a model that contains
  it returns what the modules before and after it make of the initial split.
\<close>

theorem unknown_kind_passes_through:
  assumes "\<not> known_kind (type_name m)"
  shows "cd_layer H m s = s \<and>
         fst (cd H \<lparr>mask_array = blob, model_modules = before @ m # after\<rparr> im_torch None) =
           Inr (fold (cd_layer H) (model_eval after)
                  (fold (cd_layer H) (model_eval before)
                     (blob * im_torch, (1 - blob) * im_torch)))"
proof -
  from assms have "\<not> known_kind (type_name (m\<lparr>training := False\<rparr>))" by simp
  then have "cd_layer H (m\<lparr>training := False\<rparr>) s' = s'" for s'
    by (rule cd_layer_unknown)
  with cd_layer_unknown [OF assms, of H s] show ?thesis
    by (simp add: cd_def Let_def)
qed

theorem unknown_kind_passes_through_witness:
  "cd_layer counting some_module (3, 4) = (3, 4) \<and>
   fst (cd counting \<lparr>mask_array = 1, model_modules = [] @ some_module # []\<rparr> 5 None) = Inr (5, 0)"
  using unknown_kind_passes_through [OF not_known_some_module, of counting "(3, 4)" 1 "[]" "[]" 5]
  by simp

text \<open>
  C7. \<^verbatim>\<open>cd_text\<close> does not check \<^verbatim>\<open>start\<close> and \<^verbatim>\<open>stop\<close>. With \<open>start > stop\<close>, and with
  a range outside the sequence, it returns scores: on the small model with two tokens,
  \<open>start = 1\<close> and \<open>stop = 0\<close> give the relevant scores \<open>[0, 0]\<close>.
\<close>

theorem cd_text_invalid_range_returns:
  "cd_text averaging [[3, 1]] tiny_model 1 0 False = Inr (Scores [0, 0]) \<and>
   \<not> isl (cd_text averaging [[3, 1]] tiny_model 7 9 False)"
  using cd_text_start_after_stop cd_text_tiny [of "[]" 7 9 False] by (simp add: Let_def)

text \<open>
  C7, as amended. For a state dict with the shapes of \<^verbatim>\<open>torch.nn.LSTM\<close>, word vectors of
  the input size, helpers that split as the spec describes, and a first sequence of at
  least one token, all operands fit and \<^verbatim>\<open>cd_text\<close> returns a score result for every
  \<^verbatim>\<open>start\<close> and \<^verbatim>\<open>stop\<close>.
\<close>

theorem cd_text_returns_for_any_range:
  assumes "wf_text_model e M" and "splits_three P" and "splits_tanh_two P"
    and "\<forall>tok \<in> set col0. length (embed M tok) = e"
    and "col0 \<noteq> []"
  shows "\<exists>scores irrel_scores.
     cd_text P (col0 # rest) M start stop flag =
       Inr (if flag then ScoresPair scores irrel_scores else Scores scores)"
proof -
  from split_gates_wf [OF assms(1)] obtain G where "split_gates (lstm M) = Inr G" by blast
  from cd_text_returns [OF assms this, of rest start stop flag] show ?thesis
    by (auto simp: Let_def)
qed

theorem cd_text_returns_for_any_range_witness:
  "\<exists>scores irrel_scores.
     cd_text averaging ([3, 1] # []) tiny_model (- 1) 5 True =
       Inr (if True then ScoresPair scores irrel_scores else Scores scores)"
proof -
  have "\<forall>tok \<in> set [3, 1 :: nat]. length (embed tiny_model tok) = 1"
    by (simp add: tiny_model_def)
  moreover have "[3, 1 :: nat] \<noteq> []" by simp
  ultimately show ?thesis
    by (rule cd_text_returns_for_any_range
          [OF wf_tiny_model splits_three_averaging splits_tanh_two_averaging])
qed

text \<open>
  C8. The snapshots of \<^verbatim>\<open>cd_track_vgg\<close> are not one per layer boundary: with helpers
  that count the layers, the model has 38 layer boundaries and the list has the 13
  pairs after the layers 1, 3, 6, 8, 11, 13, 15, 18, 20, 22, 25, 27 and 29.
\<close>

theorem cd_track_vgg_thirteen_snapshots:
  "cd_track_vgg counting 1 0 vgg_model None =
     Inr (38, 38, [(1, 1), (3, 3), (6, 6), (8, 8), (11, 11), (13, 13), (15, 15), (18, 18),
                   (20, 20), (22, 22), (25, 25), (27, 27), (29, 29)]) \<and>
   length (layer_boundaries counting (drop 2 (model_eval vgg_model)) None vgg_ops (0, 0)) = 38"
  by (simp add: cd_track_vgg_def drop_vgg_model Let_def layer_boundaries_vgg)

text \<open>
  C8, as amended. \<^verbatim>\<open>cd_track_vgg\<close> returns the pair after the last of the 38 layers and,
  in order, the 13 pairs taken right after each convolution of the feature extractor,
  the modules 0, 2, 5, 7, 10, 12, 14, 17, 19, 21, 24, 26 and 28 of \<^verbatim>\<open>mods\<close>.
\<close>

theorem cd_track_vgg_snapshots:
  assumes "39 \<le> length model - 2"
  shows "let mods = drop 2 (model_eval model);
             bs = layer_boundaries H mods model_type vgg_ops
                    (blob * im_torch, (1 - blob) * im_torch)
         in length bs = 38 \<and>
            cd_track_vgg H blob im_torch model model_type =
              Inr (fst (bs ! 37), snd (bs ! 37),
                   map (\<lambda>k. bs ! k) [0, 2, 5, 7, 10, 12, 14, 17, 19, 21, 24, 26, 28])"
proof -
  have l: "\<not> length (drop 2 (model_eval model)) < 39"
    using assms by (simp add: model_eval_def)
  show ?thesis
    unfolding layer_boundaries_vgg cd_track_vgg_def
    using l by (simp add: Let_def)
qed

theorem cd_track_vgg_snapshots_witness:
  "let mods = drop 2 (model_eval vgg_model);
       bs = layer_boundaries counting mods None vgg_ops (1 * 0, (1 - 1) * 0)
   in length bs = 38 \<and>
      cd_track_vgg counting 1 0 vgg_model None =
        Inr (fst (bs ! 37), snd (bs ! 37),
             map (\<lambda>k. bs ! k) [0, 2, 5, 7, 10, 12, 14, 17, 19, 21, 24, 26, 28])"
proof -
  have "39 \<le> length vgg_model - 2" by (simp add: vgg_model_def)
  then show ?thesis by (rule cd_track_vgg_snapshots)
qed

text \<open>
  C9. \<^verbatim>\<open>cd_text\<close> reads the first sequence of the batch only: two batches with the
  same first column give the same result, whatever their other columns.
\<close>

theorem cd_text_first_column_only:
  "cd_text P (col0 # rest) M start stop flag = cd_text P (col0 # rest') M start stop flag"
  by (simp add: cd_text_def split: sum.splits)

theorem cd_text_first_column_only_witness:
  "cd_text averaging ([3, 1] # [[5, 5]]) tiny_model 1 1 True =
   cd_text averaging ([3, 1] # [[8, 9], [2, 2]]) tiny_model 1 1 True"
  by (rule cd_text_first_column_only)

text \<open>
  C10. \<^verbatim>\<open>cd\<close> leaves the mask array, the parameters and the type names of the modules
  as they are; its one effect on the caller's objects is \<^verbatim>\<open>model.eval()\<close>, after which no
  module is in training mode. Its result does not depend on the mode the model was in,
  and with the dropout helper modelled from the spec a module that reaches the dropout
  branch leaves the pair as it is.
\<close>

theorem cd_frame:
  "mask_array (snd (cd H heap im_torch model_type)) = mask_array heap \<and>
   map params (model_modules (snd (cd H heap im_torch model_type)))
     = map params (model_modules heap) \<and>
   map type_name (model_modules (snd (cd H heap im_torch model_type)))
     = map type_name (model_modules heap) \<and>
   model_modules (snd (cd H heap im_torch model_type)) = model_eval (model_modules heap) \<and>
   (\<forall>m \<in> set (model_modules (snd (cd H heap im_torch model_type))). \<not> training m) \<and>
   fst (cd H (heap\<lparr>model_modules := model_eval (model_modules heap)\<rparr>) im_torch model_type)
     = fst (cd H heap im_torch model_type) \<and>
   (propagate_dropout H = propagate_dropout_spec draw \<longrightarrow>
      (\<forall>m \<in> set (model_modules (snd (cd H heap im_torch model_type))).
         sublist ''Dropout'' (type_name m) \<and> \<not> sublist ''Conv2d'' (type_name m) \<and>
         \<not> sublist ''Linear'' (type_name m) \<and> \<not> sublist ''ReLU'' (type_name m) \<and>
         \<not> sublist ''MaxPool2d'' (type_name m) \<longrightarrow>
         (\<forall>s. cd_layer H m s = s)))"
proof -
  have heap': "snd (cd H heap im_torch model_type)
      = heap\<lparr>model_modules := model_eval (model_modules heap)\<rparr>"
    by (simp add: cd_def Let_def)
  have dr: "cd_layer H m s = s"
    if "propagate_dropout H = propagate_dropout_spec draw" "\<not> training m"
      "sublist ''Dropout'' (type_name m)" "\<not> sublist ''Conv2d'' (type_name m)"
      "\<not> sublist ''Linear'' (type_name m)" "\<not> sublist ''ReLU'' (type_name m)"
      "\<not> sublist ''MaxPool2d'' (type_name m)" for m s
    using that by (simp add: cd_layer_def dropout_def propagate_dropout_spec_def)
  show ?thesis
    unfolding heap'
    by (auto simp: cd_def Let_def dest: training_model_eval intro: dr)
qed

theorem cd_frame_witness:
  "snd (cd zeroing \<lparr>mask_array = 1, model_modules = [dropout_module]\<rparr> 5 None) =
     \<lparr>mask_array = 1, model_modules = [dropout_module\<lparr>training := False\<rparr>]\<rparr> \<and>
   fst (cd zeroing \<lparr>mask_array = 1, model_modules = [dropout_module]\<rparr> 5 None) = Inr (5, 0) \<and>
   cd_layer zeroing (dropout_module\<lparr>training := False\<rparr>) (3, 4) = (3, 4)"
proof -
  have d: "propagate_dropout zeroing = propagate_dropout_spec (\<lambda>m x. 0)"
    by (simp add: zeroing_def)
  have k: "sublist ''Dropout'' (type_name (dropout_module\<lparr>training := False\<rparr>)) \<and>
      \<not> sublist ''Conv2d'' (type_name (dropout_module\<lparr>training := False\<rparr>)) \<and>
      \<not> sublist ''Linear'' (type_name (dropout_module\<lparr>training := False\<rparr>)) \<and>
      \<not> sublist ''ReLU'' (type_name (dropout_module\<lparr>training := False\<rparr>)) \<and>
      \<not> sublist ''MaxPool2d'' (type_name (dropout_module\<lparr>training := False\<rparr>))"
    using dropout_module_kind by simp
  from cd_frame [of zeroing "\<lparr>mask_array = 1, model_modules = [dropout_module]\<rparr>" 5 None
      "\<lambda>m x. 0"] d k
  have m: "model_modules (snd (cd zeroing \<lparr>mask_array = 1, model_modules = [dropout_module]\<rparr> 5 None))
        = [dropout_module\<lparr>training := False\<rparr>]"
    and a: "mask_array (snd (cd zeroing \<lparr>mask_array = 1, model_modules = [dropout_module]\<rparr> 5 None)) = 1"
    and l: "\<forall>s. cd_layer zeroing (dropout_module\<lparr>training := False\<rparr>) s = s"
    by simp_all
  have "fst (cd zeroing \<lparr>mask_array = 1, model_modules = [dropout_module]\<rparr> 5 None) = Inr (5, 0)"
    using l by (simp add: cd_def Let_def)
  with m a l show ?thesis by (simp add: cd_heap.equality)
qed

end
